theory Spec2Isabelle
  imports Complex_Main
begin

section \<open>Numbers\<close>

text \<open>
  The program is TypeScript; every quantity (size, price, notional, equity) is a
  JavaScript \<^verbatim>\<open>number\<close>. The embedding reads them as reals: \<^verbatim>\<open>Math.abs\<close> is \<open>abs\<close>,
  \<^verbatim>\<open>Math.sign\<close> is \<open>sgn\<close>, \<^verbatim>\<open>Math.min\<close> is \<open>min\<close>. \<^verbatim>\<open>NaN\<close> and the infinities have no
  counterpart here. The definitions that carry the names of the source carry out the
  arithmetic the code writes down exactly. The notional cap is a bound up to a tolerance,
  and whether it holds depends on how binary floating point rounds; for it the two
  functions involved are given a second time, \<open>computeTargets_fl\<close> and
  \<open>computeDeltas_fl\<close>, with a rounding function applied wherever the source rounds.
  Record fields carry a short prefix (\<open>p_\<close>, \<open>t_\<close>, \<open>d_\<close>, \<open>o_\<close>) where two interfaces
  of the source share a field name.
\<close>

section \<open>Data model\<close>

text \<open>
  Modelled from the spec: \<^verbatim>\<open>PositionSnapshot\<close> and \<^verbatim>\<open>AccountMetrics\<close> are declared in
  \<^verbatim>\<open>domain/types.ts\<close>, which is not among the sources; the fields are those of the
  spec's data model, which are also the only ones the code under study reads.
\<close>

record PositionSnapshot =
  p_coin :: string
  p_size :: real
  p_entryPrice :: real

record AccountMetrics =
  accountValueUsd :: real
  withdrawableUsd :: "real option"

text \<open>
  Modelled from the spec: \<^verbatim>\<open>TraderStateStore\<close> (\<^verbatim>\<open>domain/traderState.ts\<close>) is not among
  the sources. The code under study uses its two read accessors only:
  \<^verbatim>\<open>getPositions()\<close>, a \<^verbatim>\<open>Map\<close> from coin to position, and \<^verbatim>\<open>getMetrics()\<close>. A
  JavaScript \<^verbatim>\<open>Map\<close> iterates in insertion order and holds each key once; it is an
  association list here, with \<open>distinct (map fst (getPositions s))\<close> as the invariant
  that says each key occurs once.
\<close>

record TraderStateStore =
  store_positions :: "(string \<times> PositionSnapshot) list"
  store_metrics :: AccountMetrics

definition getPositions :: "TraderStateStore \<Rightarrow> (string \<times> PositionSnapshot) list" where
  "getPositions store = store_positions store"

definition getMetrics :: "TraderStateStore \<Rightarrow> AccountMetrics" where
  "getMetrics store = store_metrics store"

text \<open>\<^verbatim>\<open>Map.prototype.get\<close> and \<^verbatim>\<open>Map.prototype.values\<close> on that representation.\<close>

definition map_get :: "('k \<times> 'v) list \<Rightarrow> 'k \<Rightarrow> 'v option" where
  "map_get m k = map_of m k"

definition map_values :: "('k \<times> 'v) list \<Rightarrow> 'v list" where
  "map_values m = map snd m"

text \<open>
  Modelled from the spec: \<^verbatim>\<open>RiskConfig\<close> is declared in \<^verbatim>\<open>config/index.ts\<close>, which is
  not among the sources; the four fields are the ones the code reads.
\<close>

record RiskConfig =
  copyRatio :: real
  maxLeverage :: real
  maxNotionalUsd :: real
  maxSlippageBps :: real

text \<open>\<^verbatim>\<open>TargetPosition\<close>, from \<^verbatim>\<open>leaderState.ts\<close>.\<close>

record TargetPosition =
  t_coin :: string
  t_size :: real
  t_notionalUsd :: real
  t_impliedEntryPrice :: real
  t_impliedLeverage :: real

text \<open>\<^verbatim>\<open>PositionDelta\<close>, from \<^verbatim>\<open>followerState.ts\<close>; \<^verbatim>\<open>undefined\<close> is \<open>None\<close>.\<close>

record PositionDelta =
  d_coin :: string
  d_current :: "PositionSnapshot option"
  d_targetSize :: real
  d_deltaSize :: real
  d_maxNotionalUsd :: real

section \<open>Helpers of \<^verbatim>\<open>utils/math.ts\<close>\<close>

text \<open>
  Modelled from the spec: \<^verbatim>\<open>safeDivide\<close> is imported from \<^verbatim>\<open>utils/math.ts\<close>, which is
  not among the sources. The spec gives its behaviour at both call sites: the quotient,
  and the fallback on "division-by-zero or non-finite" denominators ("0 if leader account
  value is 0, never divide-by-zero fault"). A real is always finite, so only the zero
  test remains.
\<close>

definition safeDivide :: "real \<Rightarrow> real \<Rightarrow> real \<Rightarrow> real" where
  "safeDivide numerator denominator fallback =
     (if denominator = 0 then fallback else numerator / denominator)"

text \<open>
  Modelled from the spec: \<^verbatim>\<open>clamp\<close> is imported from \<^verbatim>\<open>utils/math.ts\<close>, which is not
  among the sources. The spec says the value is "clamped to [0.1\<times>, 10\<times>] of the reference
  price"; the arguments are value, lower bound, upper bound, in the order of the call.
\<close>

definition clamp :: "real \<Rightarrow> real \<Rightarrow> real \<Rightarrow> real" where
  "clamp v lo hi = min (max v lo) hi"

section \<open>Leader: \<^verbatim>\<open>LeaderState.computeTargets\<close>\<close>

definition computeTargets :: "TraderStateStore \<Rightarrow> RiskConfig \<Rightarrow> TargetPosition list" where
  "computeTargets leader risk =
     (let metrics = getMetrics leader in
      map (\<lambda>position.
             let scaledSize = p_size position * copyRatio risk;
                 notionalUsd = \<bar>scaledSize\<bar> * p_entryPrice position;
                 impliedLeverage = safeDivide notionalUsd (accountValueUsd metrics) 0
             in \<lparr> t_coin = p_coin position,
                  t_size = scaledSize,
                  t_notionalUsd = notionalUsd,
                  t_impliedEntryPrice = p_entryPrice position,
                  t_impliedLeverage = impliedLeverage \<rparr>)
          (map_values (getPositions leader)))"

text \<open>
  The same method with the store threaded through it. The calls \<^verbatim>\<open>this.getMetrics()\<close>
  and \<^verbatim>\<open>this.getPositions()\<close> are the only places where \<^verbatim>\<open>computeTargets\<close> touches the
  store: everything else it assigns is a fresh local or a fresh object. Here each of the
  two calls is a parameter that returns what it read together with the store it left
  behind; they run in the order of the source, \<^verbatim>\<open>getMetrics()\<close> first, and the result is
  the list together with the store after both.
\<close>

definition computeTargets_on ::
  "(TraderStateStore \<Rightarrow> AccountMetrics \<times> TraderStateStore) \<Rightarrow>
   (TraderStateStore \<Rightarrow> (string \<times> PositionSnapshot) list \<times> TraderStateStore) \<Rightarrow>
   RiskConfig \<Rightarrow> TraderStateStore \<Rightarrow> TargetPosition list \<times> TraderStateStore" where
  "computeTargets_on callGetMetrics callGetPositions risk this =
     (let (metrics, this1) = callGetMetrics this;
          (positions, this2) = callGetPositions this1
      in (map (\<lambda>position.
                 let scaledSize = p_size position * copyRatio risk;
                     notionalUsd = \<bar>scaledSize\<bar> * p_entryPrice position;
                     impliedLeverage = safeDivide notionalUsd (accountValueUsd metrics) 0
                 in \<lparr> t_coin = p_coin position,
                      t_size = scaledSize,
                      t_notionalUsd = notionalUsd,
                      t_impliedEntryPrice = p_entryPrice position,
                      t_impliedLeverage = impliedLeverage \<rparr>)
              (map_values positions),
          this2))"

section \<open>Follower: \<^verbatim>\<open>FollowerState.computeDeltas\<close>\<close>

text \<open>
  The first loop of \<^verbatim>\<open>computeDeltas\<close>: one pass over the targets, pushing a delta
  onto \<^verbatim>\<open>deltas\<close> and adding the coin to \<^verbatim>\<open>targetCoins\<close>. The two mutable locals are
  the accumulator pair.
\<close>

fun targetLoop ::
  "TraderStateStore \<Rightarrow> real \<Rightarrow> TargetPosition list \<Rightarrow>
   PositionDelta list \<times> string set \<Rightarrow> PositionDelta list \<times> string set" where
  "targetLoop follower globalNotionalCap [] acc = acc"
| "targetLoop follower globalNotionalCap (target # rest) (deltas, targetCoins) =
     (let current = map_get (getPositions follower) (t_coin target);
          targetCoins' = insert (t_coin target) targetCoins;
          price = t_impliedEntryPrice target;
          allowedNotional = min (t_notionalUsd target) globalNotionalCap;
          allowedSize = sgn (t_size target) * safeDivide allowedNotional price 0;
          deltaSize = allowedSize - (case current of None \<Rightarrow> 0 | Some c \<Rightarrow> p_size c)
      in targetLoop follower globalNotionalCap rest
           (deltas @ [\<lparr> d_coin = t_coin target,
                         d_current = current,
                         d_targetSize = allowedSize,
                         d_deltaSize = deltaSize,
                         d_maxNotionalUsd = allowedNotional \<rparr>],
            targetCoins'))"

text \<open>
  The second loop: one pass over the follower's own positions, in the order of the
  \<^verbatim>\<open>Map\<close>, with its two \<^verbatim>\<open>continue\<close> guards.
\<close>

fun closeLoop ::
  "(string \<times> PositionSnapshot) list \<Rightarrow> string set \<Rightarrow> PositionDelta list \<Rightarrow>
   PositionDelta list" where
  "closeLoop [] targetCoins deltas = deltas"
| "closeLoop ((coin, position) # rest) targetCoins deltas =
     (if coin \<in> targetCoins then closeLoop rest targetCoins deltas
      else if \<bar>p_size position\<bar> < 0.000000001 then closeLoop rest targetCoins deltas
      else closeLoop rest targetCoins
             (deltas @ [\<lparr> d_coin = coin,
                           d_current = Some position,
                           d_targetSize = 0,
                           d_deltaSize = - p_size position,
                           d_maxNotionalUsd = 0 \<rparr>]))"

definition computeDeltas ::
  "TraderStateStore \<Rightarrow> TargetPosition list \<Rightarrow> RiskConfig \<Rightarrow> PositionDelta list" where
  "computeDeltas follower targets risk =
     (let followerMetrics = getMetrics follower;
          equity = accountValueUsd followerMetrics;
          leverageCapNotional = maxLeverage risk * equity;
          globalNotionalCap = min (maxNotionalUsd risk) leverageCapNotional;
          (deltas, targetCoins) = targetLoop follower globalNotionalCap targets ([], {})
      in closeLoop (getPositions follower) targetCoins deltas)"

section \<open>The same arithmetic, rounded\<close>

text \<open>
  A JavaScript \<^verbatim>\<open>number\<close> is an IEEE 754 double, and the result of \<^verbatim>\<open>*\<close>, \<^verbatim>\<open>/\<close> and \<^verbatim>\<open>-\<close>
  is the exact result rounded to a double. \<open>rounding u eta fl\<close> says of a function \<open>fl\<close>
  what is known of such a rounding: the result is within the relative error \<open>u\<close> plus the
  absolute error \<open>eta\<close> of the exact value, a larger value does not round below a smaller
  one, and 0 is not rounded. Rounding to the nearest double is such a function with
  \<open>u = 2\<^sup>-\<^sup>5\<^sup>3\<close> and \<open>eta = 2\<^sup>-\<^sup>1\<^sup>0\<^sup>7\<^sup>5\<close> as long as no operation overflows; the identity is one
  with \<open>u = eta = 0\<close>.
\<close>

definition rounding :: "real \<Rightarrow> real \<Rightarrow> (real \<Rightarrow> real) \<Rightarrow> bool" where
  "rounding u eta fl =
     (0 \<le> u \<and> (\<forall>x. \<bar>fl x - x\<bar> \<le> u * \<bar>x\<bar> + eta) \<and> (\<forall>x y. x \<le> y \<longrightarrow> fl x \<le> fl y) \<and> fl 0 = 0)"

text \<open>
  Modelled from the spec: \<^verbatim>\<open>safeDivide\<close> as above (\<^verbatim>\<open>utils/math.ts\<close> is not among the
  sources), with its quotient rounded.
\<close>

definition safeDivide_fl :: "(real \<Rightarrow> real) \<Rightarrow> real \<Rightarrow> real \<Rightarrow> real \<Rightarrow> real" where
  "safeDivide_fl fl numerator denominator fallback =
     (if denominator = 0 then fallback else fl (numerator / denominator))"

text \<open>
  \<^verbatim>\<open>computeTargets\<close> and \<^verbatim>\<open>computeDeltas\<close> once more, with \<open>fl\<close> applied to the result of
  every \<^verbatim>\<open>*\<close>, \<^verbatim>\<open>/\<close> and \<^verbatim>\<open>-\<close> of the source. \<^verbatim>\<open>Math.abs\<close>, \<^verbatim>\<open>Math.min\<close>, the unary minus
  of the second loop and the product with \<^verbatim>\<open>Math.sign(target.size)\<close>, which is \<open>-1\<close>, 0 or
  1, are exact in floating point and stay as they are; the second loop computes nothing
  else, so it is \<open>closeLoop\<close> unchanged.
\<close>

definition computeTargets_fl ::
  "(real \<Rightarrow> real) \<Rightarrow> TraderStateStore \<Rightarrow> RiskConfig \<Rightarrow> TargetPosition list" where
  "computeTargets_fl fl leader risk =
     (let metrics = getMetrics leader in
      map (\<lambda>position.
             let scaledSize = fl (p_size position * copyRatio risk);
                 notionalUsd = fl (\<bar>scaledSize\<bar> * p_entryPrice position);
                 impliedLeverage = safeDivide_fl fl notionalUsd (accountValueUsd metrics) 0
             in \<lparr> t_coin = p_coin position,
                  t_size = scaledSize,
                  t_notionalUsd = notionalUsd,
                  t_impliedEntryPrice = p_entryPrice position,
                  t_impliedLeverage = impliedLeverage \<rparr>)
          (map_values (getPositions leader)))"

fun targetLoop_fl ::
  "(real \<Rightarrow> real) \<Rightarrow> TraderStateStore \<Rightarrow> real \<Rightarrow> TargetPosition list \<Rightarrow>
   PositionDelta list \<times> string set \<Rightarrow> PositionDelta list \<times> string set" where
  "targetLoop_fl fl follower globalNotionalCap [] acc = acc"
| "targetLoop_fl fl follower globalNotionalCap (target # rest) (deltas, targetCoins) =
     (let current = map_get (getPositions follower) (t_coin target);
          targetCoins' = insert (t_coin target) targetCoins;
          price = t_impliedEntryPrice target;
          allowedNotional = min (t_notionalUsd target) globalNotionalCap;
          allowedSize = sgn (t_size target) * safeDivide_fl fl allowedNotional price 0;
          deltaSize = fl (allowedSize - (case current of None \<Rightarrow> 0 | Some c \<Rightarrow> p_size c))
      in targetLoop_fl fl follower globalNotionalCap rest
           (deltas @ [\<lparr> d_coin = t_coin target,
                         d_current = current,
                         d_targetSize = allowedSize,
                         d_deltaSize = deltaSize,
                         d_maxNotionalUsd = allowedNotional \<rparr>],
            targetCoins'))"

definition computeDeltas_fl ::
  "(real \<Rightarrow> real) \<Rightarrow> TraderStateStore \<Rightarrow> TargetPosition list \<Rightarrow> RiskConfig \<Rightarrow>
   PositionDelta list" where
  "computeDeltas_fl fl follower targets risk =
     (let followerMetrics = getMetrics follower;
          equity = accountValueUsd followerMetrics;
          leverageCapNotional = fl (maxLeverage risk * equity);
          globalNotionalCap = min (maxNotionalUsd risk) leverageCapNotional;
          (deltas, targetCoins) = targetLoop_fl fl follower globalNotionalCap targets ([], {})
      in closeLoop (getPositions follower) targetCoins deltas)"

text \<open>
  What the roundings of one delta add up to: the cap is rounded once (the product
  \<^verbatim>\<open>maxLeverage * accountValueUsd\<close>) and the allowed size once (the quotient by the
  price). For a cap of \<open>10\<^sup>5\<close> and a price of \<open>4 \<times> 10\<^sup>4\<close> in doubles this is about
  \<open>2 \<times> 10\<^sup>-\<^sup>1\<^sup>1\<close>; in exact arithmetic it is 0.
\<close>

definition tolerance :: "real \<Rightarrow> real \<Rightarrow> real \<Rightarrow> real \<Rightarrow> real" where
  "tolerance u eta cap price = cap * (2 * u + u * u) + eta * (1 + u) + eta * \<bar>price\<bar>"

section \<open>Market metadata\<close>

text \<open>
  Modelled from the spec: \<^verbatim>\<open>MarketMetadataService\<close> (\<^verbatim>\<open>services/marketMetadata.ts\<close>) is
  not among the sources. The spec's data model gives one \<^verbatim>\<open>MarketMetadata\<close> per tradable
  market, with the asset identifier, the size precision and a mark price that is absent
  until the first refresh; \<^verbatim>\<open>getMarkPrice(coin)\<close> "returns absent if never successfully
  loaded". \<^verbatim>\<open>requireByCoin\<close> is taken to throw for a coin the cache does not know, which
  is what its name says and what the non-optional use of its result needs.
\<close>

record MarketMetadata =
  m_coin :: string
  m_assetId :: nat
  m_sizeDecimals :: nat
  m_markPrice :: "real option"

type_synonym MarketMetadataService = "string \<Rightarrow> MarketMetadata option"

text \<open>
  Whatever the program can throw: an unknown market in \<^verbatim>\<open>requireByCoin\<close>, the
  \<^verbatim>\<open>RangeError\<close> of \<^verbatim>\<open>Number.prototype.toFixed\<close>, and a failure of a call that leaves the
  process (metadata load, price refresh, order submission), with its message.
\<close>

datatype error = UnknownMarket string | RangeError | External string

definition requireByCoin :: "MarketMetadataService \<Rightarrow> string \<Rightarrow> error + MarketMetadata" where
  "requireByCoin metadataService coin =
     (case metadataService coin of None \<Rightarrow> Inl (UnknownMarket coin) | Some metadata \<Rightarrow> Inr metadata)"

definition getMarkPrice :: "MarketMetadataService \<Rightarrow> string \<Rightarrow> real option" where
  "getMarkPrice metadataService coin =
     (case metadataService coin of None \<Rightarrow> None | Some metadata \<Rightarrow> m_markPrice metadata)"

section \<open>Orders\<close>

text \<open>
  The two numeric strings of an order. \<^verbatim>\<open>price.toString()\<close> is the shortest decimal that
  reads back as the same double; that rendering is not modelled, and \<open>NumberToString x\<close>
  stands for the string it produces for \<open>x\<close>. \<open>Literal\<close> carries a string whose characters
  the model computes (the fixed-point digits of \<^verbatim>\<open>toFixed\<close>).
\<close>

datatype NumberText = NumberToString real | Literal string

datatype OrderType = LimitIoc

record Order =
  o_a :: nat
  o_b :: bool
  o_p :: NumberText
  o_s :: NumberText
  o_r :: bool
  o_t :: OrderType
  o_c :: string

text \<open>\<^verbatim>\<open>MIN_ABS_DELTA = 1e-6\<close>.\<close>

definition MIN_ABS_DELTA :: real where
  "MIN_ABS_DELTA = 0.000001"

text \<open>
  \<^verbatim>\<open>Number.prototype.toFixed\<close>, after ECMA-262: a \<^verbatim>\<open>RangeError\<close> outside 0..100 fraction
  digits; \<^verbatim>\<open>ToString\<close> from \<open>10\<^sup>2\<^sup>1\<close> on; otherwise the integer \<open>n\<close> with \<open>n / 10\<^sup>f\<close>
  nearest to the value, the larger one on a tie (\<open>roundedAt\<close>), written in decimal
  (\<open>digitsOf\<close>), padded with zeros to \<open>f + 1\<close> digits with the point before the last \<open>f\<close>
  of them (\<open>placePoint\<close>), and the sign in front.
\<close>

definition digitChar :: "nat \<Rightarrow> char" where
  "digitChar d = ''0123456789'' ! d"

fun digitsOf :: "nat \<Rightarrow> string" where
  "digitsOf n = (if n < 10 then [digitChar n] else digitsOf (n div 10) @ [digitChar (n mod 10)])"

declare digitsOf.simps [simp del]

definition roundedAt :: "real \<Rightarrow> nat \<Rightarrow> nat" where
  "roundedAt x fractionDigits = nat \<lfloor>\<bar>x\<bar> * 10 ^ fractionDigits + 1 / 2\<rfloor>"

definition placePoint :: "string \<Rightarrow> nat \<Rightarrow> string" where
  "placePoint m fractionDigits =
     (if fractionDigits \<noteq> 0
      then (let padded = replicate (fractionDigits + 1 - length m) (CHR ''0'') @ m;
                k = length padded
            in take (k - fractionDigits) padded @ ''.'' @ drop (k - fractionDigits) padded)
      else m)"

definition toFixed :: "real \<Rightarrow> nat \<Rightarrow> error + NumberText" where
  "toFixed x fractionDigits =
     (if fractionDigits > 100 then Inl RangeError
      else if \<bar>x\<bar> \<ge> 10 ^ 21 then Inr (NumberToString x)
      else Inr (Literal ((if x < 0 then ''-'' else []) @
                         placePoint (digitsOf (roundedAt x fractionDigits)) fractionDigits)))"

section \<open>Executor: \<^verbatim>\<open>TradeExecutor.buildOrder\<close>\<close>

text \<open>
  \<^verbatim>\<open>randomUUID()\<close> is an input (\<open>uuid\<close>): the model is a function, the identifier is not.
  \<^verbatim>\<open>a ?? b\<close> is a \<open>case\<close> on \<open>None\<close>; \<^verbatim>\<open>delta.current?.entryPrice\<close> is absent exactly
  when \<^verbatim>\<open>delta.current\<close> is.
\<close>

definition buildOrder ::
  "RiskConfig \<Rightarrow> MarketMetadataService \<Rightarrow> string \<Rightarrow> PositionDelta \<Rightarrow> error + Order" where
  "buildOrder risk metadataService uuid delta =
     (case requireByCoin metadataService (d_coin delta) of
        Inl e \<Rightarrow> Inl e
      | Inr metadata \<Rightarrow>
          let markPrice =
                (case getMarkPrice metadataService (d_coin delta) of
                   Some mark \<Rightarrow> mark
                 | None \<Rightarrow> (case d_current delta of
                              Some cur \<Rightarrow> p_entryPrice cur
                            | None \<Rightarrow> 0));
              sideIsBuy = (d_deltaSize delta > 0);
              slippage = maxSlippageBps risk / 10000;
              priceMultiplier = (if sideIsBuy then 1 + slippage else 1 - slippage);
              price = clamp (markPrice * priceMultiplier) (markPrice * 0.1) (markPrice * 10);
              size' = \<bar>d_deltaSize delta\<bar>;
              reduceOnly =
                (case d_current delta of
                   None \<Rightarrow> False
                 | Some cur \<Rightarrow>
                     let currentSize = p_size cur;
                         targetSize = d_targetSize delta
                     in if \<bar>targetSize\<bar> < MIN_ABS_DELTA then True
                        else let sameDirection = (sgn currentSize = sgn targetSize)
                             in sameDirection \<and> \<bar>targetSize\<bar> < \<bar>currentSize\<bar>)
          in (case toFixed size' (m_sizeDecimals metadata) of
                Inl e \<Rightarrow> Inl e
              | Inr sizeText \<Rightarrow>
                  Inr \<lparr> o_a = m_assetId metadata,
                        o_b = sideIsBuy,
                        o_p = NumberToString price,
                        o_s = sizeText,
                        o_r = reduceOnly,
                        o_t = LimitIoc,
                        o_c = ''0x'' @ take 32 (filter (\<lambda>ch. ch \<noteq> CHR ''-'') uuid) \<rparr>))"

text \<open>
  \<^verbatim>\<open>actionable.map((delta) => this.buildOrder(delta))\<close>: in order, and the first throw ends
  the map. The \<open>i\<close>-th call draws the \<open>i\<close>-th identifier.
\<close>

fun buildOrders ::
  "RiskConfig \<Rightarrow> MarketMetadataService \<Rightarrow> (nat \<Rightarrow> string) \<Rightarrow> nat \<Rightarrow> PositionDelta list \<Rightarrow>
   error + Order list" where
  "buildOrders risk metadataService uuids i [] = Inr []"
| "buildOrders risk metadataService uuids i (delta # rest) =
     (case buildOrder risk metadataService (uuids i) delta of
        Inl e \<Rightarrow> Inl e
      | Inr order \<Rightarrow>
          (case buildOrders risk metadataService uuids (Suc i) rest of
             Inl e \<Rightarrow> Inl e
           | Inr orders \<Rightarrow> Inr (order # orders)))"

section \<open>Executor: \<^verbatim>\<open>TradeExecutor.syncWithLeader\<close>\<close>

text \<open>
  What a pass does that can be seen from outside: the log lines, the calls on its
  dependencies, and the one call that leaves the process with orders
  (\<^verbatim>\<open>exchangeClient.order({orders, grouping: "na"})\<close>).
\<close>

datatype Event =
    LogDebug string
  | LogInfo string nat "nat list"
  | LogError string error
  | EnsureLoaded
  | RefreshMarkPrices
  | ComputeTargets
  | ComputeDeltas
  | ExchangeOrder "Order list"

text \<open>
  The executor object: its private flag and the dependencies it was constructed with.
  The stores and the metadata cache are shared objects that other parts of the process
  write; the executor only reads them.
\<close>

record Executor =
  syncing :: bool
  deps_leaderState :: TraderStateStore
  deps_followerState :: TraderStateStore
  deps_metadataService :: MarketMetadataService
  deps_risk :: RiskConfig

text \<open>
  The answers of the awaited calls. \<^verbatim>\<open>ensureLoaded\<close> and \<^verbatim>\<open>refreshMarkPrices\<close> either
  throw or leave the metadata cache in a new state; the order call either throws or
  resolves (its value is not used); \<open>randomUUID\<close> numbers the identifiers of one pass.
\<close>

record Env =
  ensureLoaded :: "MarketMetadataService \<Rightarrow> error + MarketMetadataService"
  refreshMarkPrices :: "MarketMetadataService \<Rightarrow> error + MarketMetadataService"
  exchangeOrder :: "Order list \<Rightarrow> error + unit"
  randomUUID :: "nat \<Rightarrow> string"

text \<open>
  \<^verbatim>\<open>syncWithLeader\<close> is an \<^verbatim>\<open>async\<close> function with three \<^verbatim>\<open>await\<close>s. An invocation runs
  without interruption from the call to the first \<^verbatim>\<open>await\<close>, and from each resumption to
  the next \<^verbatim>\<open>await\<close> or to its end; \<open>Pc\<close> says where an invocation stands, \<open>Finished\<close>
  with the value its promise settled with (\<open>Inl\<close>: rejected with that error).
\<close>

datatype Pc =
    AwaitEnsureLoaded
  | AwaitRefreshMarkPrices
  | AwaitOrder "Order list"
  | Finished "error + unit"

text \<open>
  A throw inside the \<^verbatim>\<open>try\<close>: the \<^verbatim>\<open>catch\<close> logs and rethrows, the \<^verbatim>\<open>finally\<close> clears
  the flag.
\<close>

definition failPass :: "error \<Rightarrow> Executor \<Rightarrow> Pc \<times> Executor \<times> Event list" where
  "failPass e ex =
     (Finished (Inl e), ex\<lparr>syncing := False\<rparr>,
      [LogError ''Failed to synchronize follower with leader'' e])"

text \<open>From the call to the first \<^verbatim>\<open>await\<close>. The early \<^verbatim>\<open>return\<close> is outside the \<^verbatim>\<open>try\<close>.\<close>

definition enter :: "Executor \<Rightarrow> Pc \<times> Executor \<times> Event list" where
  "enter ex =
     (if syncing ex
      then (Finished (Inr ()), ex, [LogDebug ''Trade sync already in progress''])
      else (AwaitEnsureLoaded, ex\<lparr>syncing := True\<rparr>, [EnsureLoaded]))"

text \<open>From the answer of \<^verbatim>\<open>ensureLoaded()\<close> to the second \<^verbatim>\<open>await\<close>.\<close>

definition afterEnsureLoaded ::
  "error + MarketMetadataService \<Rightarrow> Executor \<Rightarrow> Pc \<times> Executor \<times> Event list" where
  "afterEnsureLoaded answer ex =
     (case answer of
        Inl e \<Rightarrow> failPass e ex
      | Inr loaded \<Rightarrow>
          (AwaitRefreshMarkPrices, ex\<lparr>deps_metadataService := loaded\<rparr>, [RefreshMarkPrices]))"

text \<open>
  From the answer of \<^verbatim>\<open>refreshMarkPrices()\<close> to the third \<^verbatim>\<open>await\<close>: targets, deltas,
  the dust filter, the early \<^verbatim>\<open>return\<close> inside the \<^verbatim>\<open>try\<close> (so the \<^verbatim>\<open>finally\<close> runs),
  the orders, the submission.
\<close>

definition afterRefreshMarkPrices ::
  "(nat \<Rightarrow> string) \<Rightarrow> error + MarketMetadataService \<Rightarrow> Executor \<Rightarrow>
   Pc \<times> Executor \<times> Event list" where
  "afterRefreshMarkPrices uuids answer ex =
     (case answer of
        Inl e \<Rightarrow> failPass e ex
      | Inr refreshed \<Rightarrow>
          let ex' = ex\<lparr>deps_metadataService := refreshed\<rparr>;
              targets = computeTargets (deps_leaderState ex') (deps_risk ex');
              deltas = computeDeltas (deps_followerState ex') targets (deps_risk ex');
              actionable = filter (\<lambda>delta. \<bar>d_deltaSize delta\<bar> > MIN_ABS_DELTA) deltas
          in if length actionable = 0
             then (Finished (Inr ()), ex'\<lparr>syncing := False\<rparr>,
                   [ComputeTargets, ComputeDeltas,
                    LogDebug ''Follower already synchronized with leader''])
             else (case buildOrders (deps_risk ex') (deps_metadataService ex') uuids 0 actionable of
                     Inl e \<Rightarrow>
                       (case failPass e ex' of
                          (pc, ex'', events) \<Rightarrow> (pc, ex'', [ComputeTargets, ComputeDeltas] @ events))
                   | Inr orders \<Rightarrow>
                       (AwaitOrder orders, ex',
                        [ComputeTargets, ComputeDeltas,
                         LogInfo ''Submitting follower sync orders'' (length orders) (map o_a orders),
                         ExchangeOrder orders])))"

text \<open>From the answer of the order call to the end.\<close>

definition afterOrder :: "error + unit \<Rightarrow> Executor \<Rightarrow> Pc \<times> Executor \<times> Event list" where
  "afterOrder answer ex =
     (case answer of
        Inl e \<Rightarrow> failPass e ex
      | Inr _ \<Rightarrow> (Finished (Inr ()), ex\<lparr>syncing := False\<rparr>, []))"

text \<open>
  One resumption of an invocation, with the answer taken from \<open>env\<close>; the events are
  appended to those so far. A finished invocation stays as it is.
\<close>

fun resume :: "Env \<Rightarrow> Pc \<times> Executor \<times> Event list \<Rightarrow> Pc \<times> Executor \<times> Event list" where
  "resume env (AwaitEnsureLoaded, ex, events) =
     (case afterEnsureLoaded (ensureLoaded env (deps_metadataService ex)) ex of
        (pc, ex', events') \<Rightarrow> (pc, ex', events @ events'))"
| "resume env (AwaitRefreshMarkPrices, ex, events) =
     (case afterRefreshMarkPrices (randomUUID env)
             (refreshMarkPrices env (deps_metadataService ex)) ex of
        (pc, ex', events') \<Rightarrow> (pc, ex', events @ events'))"
| "resume env (AwaitOrder orders, ex, events) =
     (case afterOrder (exchangeOrder env orders) ex of
        (pc, ex', events') \<Rightarrow> (pc, ex', events @ events'))"
| "resume env (Finished outcome, ex, events) = (Finished outcome, ex, events)"

text \<open>
  One invocation, alone: nothing else runs while it waits. It has at most three
  \<^verbatim>\<open>await\<close>s, so three resumptions reach its end. The result is where it stands then
  (\<open>Finished\<close>, by \<open>syncWithLeader_settles\<close> below), the executor it leaves, and the events
  in order.
\<close>

definition syncWithLeader :: "Env \<Rightarrow> Executor \<Rightarrow> Pc \<times> Executor \<times> Event list" where
  "syncWithLeader env ex = resume env (resume env (resume env (enter ex)))"

section \<open>Invocations that overlap\<close>

text \<open>
  The process: the executor, every invocation of \<^verbatim>\<open>syncWithLeader\<close> made so far with
  where it stands, and the events so far. JavaScript runs one stretch of code at a time,
  so a step of the process is a new invocation running to its first \<^verbatim>\<open>await\<close>, an
  invocation resumed with some answer and running to its next \<^verbatim>\<open>await\<close>, or something
  else in the process (event ingestion, reconciliation) writing the shared stores and
  the metadata cache. Nothing but \<^verbatim>\<open>syncWithLeader\<close> touches the private flag.
\<close>

record System =
  executor :: Executor
  calls :: "Pc list"
  trace :: "Event list"

inductive step :: "System \<Rightarrow> System \<Rightarrow> bool" where
  Invoke:
    "enter (executor sys) = (pc, ex', events) \<Longrightarrow>
     step sys \<lparr>executor = ex', calls = calls sys @ [pc], trace = trace sys @ events\<rparr>"
| ResumeEnsureLoaded:
    "i < length (calls sys) \<Longrightarrow> calls sys ! i = AwaitEnsureLoaded \<Longrightarrow>
     afterEnsureLoaded answer (executor sys) = (pc, ex', events) \<Longrightarrow>
     step sys \<lparr>executor = ex', calls = (calls sys)[i := pc], trace = trace sys @ events\<rparr>"
| ResumeRefreshMarkPrices:
    "i < length (calls sys) \<Longrightarrow> calls sys ! i = AwaitRefreshMarkPrices \<Longrightarrow>
     afterRefreshMarkPrices uuids answer (executor sys) = (pc, ex', events) \<Longrightarrow>
     step sys \<lparr>executor = ex', calls = (calls sys)[i := pc], trace = trace sys @ events\<rparr>"
| ResumeOrder:
    "i < length (calls sys) \<Longrightarrow> calls sys ! i = AwaitOrder orders \<Longrightarrow>
     afterOrder result (executor sys) = (pc, ex', events) \<Longrightarrow>
     step sys \<lparr>executor = ex', calls = (calls sys)[i := pc], trace = trace sys @ events\<rparr>"
| World:
    "syncing ex' = syncing (executor sys) \<Longrightarrow>
     step sys \<lparr>executor = ex', calls = calls sys, trace = trace sys\<rparr>"

text \<open>A fresh executor (\<^verbatim>\<open>private syncing = false\<close>) with no invocation yet.\<close>

definition initial :: "System \<Rightarrow> bool" where
  "initial sys = (\<not> syncing (executor sys) \<and> calls sys = [] \<and> trace sys = [])"

inductive reachable :: "System \<Rightarrow> bool" where
  Start: "initial sys \<Longrightarrow> reachable sys"
| Step: "reachable sys \<Longrightarrow> step sys sys' \<Longrightarrow> reachable sys'"

text \<open>An invocation that is inside a pass: it holds the flag and waits at an \<^verbatim>\<open>await\<close>.\<close>

fun inPass :: "Pc \<Rightarrow> bool" where
  "inPass (Finished outcome) = False"
| "inPass pc = True"

text \<open>An invocation whose batch is with the exchange: it waits for the order call to answer.\<close>

fun awaitsOrder :: "Pc \<Rightarrow> bool" where
  "awaitsOrder (AwaitOrder orders) = True"
| "awaitsOrder pc = False"

fun isExchangeOrder :: "Event \<Rightarrow> bool" where
  "isExchangeOrder (ExchangeOrder orders) = True"
| "isExchangeOrder event = False"

section \<open>The two loops of \<^verbatim>\<open>computeDeltas\<close>, read as maps\<close>

text \<open>
  Names for what the proofs below talk about; \<open>computeDeltas_eq\<close> shows that they say
  what the loops compute. \<open>globalNotionalCap\<close> is the local of that name; \<open>targetDelta\<close>
  is the object the first loop pushes for one target, \<open>closingDelta\<close> the one the second
  loop pushes for one entry of the follower's \<^verbatim>\<open>Map\<close>, and \<open>closable\<close> says that neither
  \<^verbatim>\<open>continue\<close> of the second loop fires.
\<close>

definition globalNotionalCap :: "TraderStateStore \<Rightarrow> RiskConfig \<Rightarrow> real" where
  "globalNotionalCap follower risk =
     min (maxNotionalUsd risk) (maxLeverage risk * accountValueUsd (getMetrics follower))"

definition targetDelta :: "TraderStateStore \<Rightarrow> real \<Rightarrow> TargetPosition \<Rightarrow> PositionDelta" where
  "targetDelta follower cap target =
     \<lparr> d_coin = t_coin target,
       d_current = map_get (getPositions follower) (t_coin target),
       d_targetSize =
         sgn (t_size target) *
           safeDivide (min (t_notionalUsd target) cap) (t_impliedEntryPrice target) 0,
       d_deltaSize =
         sgn (t_size target) *
           safeDivide (min (t_notionalUsd target) cap) (t_impliedEntryPrice target) 0
         - (case map_get (getPositions follower) (t_coin target) of
              None \<Rightarrow> 0
            | Some c \<Rightarrow> p_size c),
       d_maxNotionalUsd = min (t_notionalUsd target) cap \<rparr>"

definition closingDelta :: "string \<times> PositionSnapshot \<Rightarrow> PositionDelta" where
  "closingDelta entry =
     \<lparr> d_coin = fst entry, d_current = Some (snd entry), d_targetSize = 0,
       d_deltaSize = - p_size (snd entry), d_maxNotionalUsd = 0 \<rparr>"

definition closable :: "string set \<Rightarrow> string \<times> PositionSnapshot \<Rightarrow> bool" where
  "closable targetCoins entry =
     (fst entry \<notin> targetCoins \<and> \<not> \<bar>p_size (snd entry)\<bar> < 0.000000001)"

text \<open>The object the first loop of \<open>computeDeltas_fl\<close> pushes for one target.\<close>

definition targetDelta_fl ::
  "(real \<Rightarrow> real) \<Rightarrow> TraderStateStore \<Rightarrow> real \<Rightarrow> TargetPosition \<Rightarrow> PositionDelta" where
  "targetDelta_fl fl follower cap target =
     \<lparr> d_coin = t_coin target,
       d_current = map_get (getPositions follower) (t_coin target),
       d_targetSize =
         sgn (t_size target) *
           safeDivide_fl fl (min (t_notionalUsd target) cap) (t_impliedEntryPrice target) 0,
       d_deltaSize =
         fl (sgn (t_size target) *
               safeDivide_fl fl (min (t_notionalUsd target) cap) (t_impliedEntryPrice target) 0
             - (case map_get (getPositions follower) (t_coin target) of
                  None \<Rightarrow> 0
                | Some c \<Rightarrow> p_size c)),
       d_maxNotionalUsd = min (t_notionalUsd target) cap \<rparr>"

text \<open>
  The reference price of each delta of an output of \<^verbatim>\<open>computeDeltas\<close>, by position: the
  implied entry price of its target for the deltas that come from the targets, and 0
  for the closing deltas behind them.
\<close>

definition referencePrices :: "TargetPosition list \<Rightarrow> PositionDelta list \<Rightarrow> real list" where
  "referencePrices targets deltas =
     map t_impliedEntryPrice targets @ replicate (length deltas - length targets) 0"

section \<open>Two accounts to compute with\<close>

text \<open>
  The scenario of the spec: the leader is long 10 BTC at 50000 with copy ratio 0.1,
  leverage cap 10, notional cap 1,000,000, and the follower has an equity of 10000. The
  follower here also holds 2 ETH the leader does not have, and a remainder of SOL below
  the dust threshold of \<^verbatim>\<open>computeDeltas\<close>.
\<close>

definition ex_risk :: RiskConfig where
  "ex_risk = \<lparr> copyRatio = 0.1, maxLeverage = 10, maxNotionalUsd = 1000000, maxSlippageBps = 25 \<rparr>"

definition ex_leader :: TraderStateStore where
  "ex_leader =
     \<lparr> store_positions = [(''BTC'', \<lparr> p_coin = ''BTC'', p_size = 10, p_entryPrice = 50000 \<rparr>)],
       store_metrics = \<lparr> accountValueUsd = 1000000, withdrawableUsd = None \<rparr> \<rparr>"

definition ex_follower :: TraderStateStore where
  "ex_follower =
     \<lparr> store_positions =
         [(''ETH'', \<lparr> p_coin = ''ETH'', p_size = 2, p_entryPrice = 3000 \<rparr>),
          (''SOL'', \<lparr> p_coin = ''SOL'', p_size = 0.0000000001, p_entryPrice = 150 \<rparr>)],
       store_metrics = \<lparr> accountValueUsd = 10000, withdrawableUsd = None \<rparr> \<rparr>"

text \<open>
  Three more leaders. The leader of the scenario with an account value of 0. A leader
  short \<open>5 \<times> 10\<^sup>-\<^sup>6\<close> ETH: at copy ratio 0.1 its target is short \<open>5 \<times> 10\<^sup>-\<^sup>7\<close> ETH, under
  \<^verbatim>\<open>MIN_ABS_DELTA\<close>, while the follower of the scenario is long 2 ETH. And a leader long
  30 BTC at 37898.88, whose target of 3 BTC is worth more than the follower's cap of
  100000, so that the allowed size is the quotient \<open>100000 / 37898.88\<close>, which no decimal
  or binary fraction represents; \<open>ex_round3\<close> rounds to the nearest multiple of 0.001,
  the larger on a tie, a rounding coarse enough to compute with by hand.
\<close>

definition ex_leader_no_equity :: TraderStateStore where
  "ex_leader_no_equity =
     \<lparr> store_positions = [(''BTC'', \<lparr> p_coin = ''BTC'', p_size = 10, p_entryPrice = 50000 \<rparr>)],
       store_metrics = \<lparr> accountValueUsd = 0, withdrawableUsd = None \<rparr> \<rparr>"

definition ex_leader_dust_short :: TraderStateStore where
  "ex_leader_dust_short =
     \<lparr> store_positions = [(''ETH'', \<lparr> p_coin = ''ETH'', p_size = - 0.000005, p_entryPrice = 3000 \<rparr>)],
       store_metrics = \<lparr> accountValueUsd = 1000000, withdrawableUsd = None \<rparr> \<rparr>"

definition ex_leader_30 :: TraderStateStore where
  "ex_leader_30 =
     \<lparr> store_positions = [(''BTC'', \<lparr> p_coin = ''BTC'', p_size = 30, p_entryPrice = 37898.88 \<rparr>)],
       store_metrics = \<lparr> accountValueUsd = 1000000, withdrawableUsd = None \<rparr> \<rparr>"

definition ex_round3 :: "real \<Rightarrow> real" where
  "ex_round3 x = real_of_int \<lfloor>x * 1000 + 1 / 2\<rfloor> / 1000"

text \<open>
  Three markets: BTC with a mark price, ETH and DOGE with none yet; a delta of
  \<open>2 \<times> 10\<^sup>-\<^sup>6\<close> DOGE, above \<^verbatim>\<open>MIN_ABS_DELTA\<close> and below half of DOGE's size step of 0.01;
  and a value of \<^verbatim>\<open>randomUUID()\<close>.
\<close>

definition ex_metadata :: MarketMetadataService where
  "ex_metadata =
     [''BTC'' \<mapsto> \<lparr> m_coin = ''BTC'', m_assetId = 0, m_sizeDecimals = 5, m_markPrice = Some 50100 \<rparr>,
      ''ETH'' \<mapsto> \<lparr> m_coin = ''ETH'', m_assetId = 1, m_sizeDecimals = 4, m_markPrice = None \<rparr>,
      ''DOGE'' \<mapsto> \<lparr> m_coin = ''DOGE'', m_assetId = 12, m_sizeDecimals = 2, m_markPrice = None \<rparr>]"

definition ex_dust_delta :: PositionDelta where
  "ex_dust_delta =
     \<lparr> d_coin = ''DOGE'', d_current = None, d_targetSize = 0.000002, d_deltaSize = 0.000002,
       d_maxNotionalUsd = 0.0000004 \<rparr>"

definition ex_uuid :: string where
  "ex_uuid = ''123e4567-e89b-12d3-a456-426614174000''"

text \<open>
  An executor over the two accounts and the three markets; answers under which every
  awaited call succeeds, and answers under which the exchange rejects the batch; the two
  orders the executor builds for the scenario; the process after one invocation has
  begun its pass; and the process after a second invocation has been made meanwhile.
\<close>

definition ex_executor :: Executor where
  "ex_executor =
     \<lparr> syncing = False, deps_leaderState = ex_leader, deps_followerState = ex_follower,
       deps_metadataService = ex_metadata, deps_risk = ex_risk \<rparr>"

definition ex_env :: Env where
  "ex_env =
     \<lparr> ensureLoaded = (\<lambda>cache. Inr cache), refreshMarkPrices = (\<lambda>cache. Inr cache),
       exchangeOrder = (\<lambda>orders. Inr ()), randomUUID = (\<lambda>i. ex_uuid) \<rparr>"

definition ex_env_rejecting :: Env where
  "ex_env_rejecting = ex_env\<lparr> exchangeOrder := (\<lambda>orders. Inl (External ''order rejected'')) \<rparr>"

definition ex_orders :: "Order list" where
  "ex_orders =
     [\<lparr> o_a = 0, o_b = True, o_p = NumberToString 50225.25, o_s = Literal ''1.00000'',
        o_r = False, o_t = LimitIoc, o_c = ''0x123e4567e89b12d3a456426614174000'' \<rparr>,
      \<lparr> o_a = 1, o_b = False, o_p = NumberToString 2992.5, o_s = Literal ''2.0000'',
        o_r = True, o_t = LimitIoc, o_c = ''0x123e4567e89b12d3a456426614174000'' \<rparr>]"

definition ex_system_one_call :: System where
  "ex_system_one_call =
     \<lparr> executor = ex_executor\<lparr> syncing := True \<rparr>,
       calls = [AwaitEnsureLoaded],
       trace = [EnsureLoaded] \<rparr>"

definition ex_system :: System where
  "ex_system =
     \<lparr> executor = ex_executor\<lparr> syncing := True \<rparr>,
       calls = [AwaitEnsureLoaded, Finished (Inr ())],
       trace = [EnsureLoaded, LogDebug ''Trade sync already in progress''] \<rparr>"

section \<open>Invariants of the flag\<close>

text \<open>
  Predicates for the proofs about the flag. \<open>keepsOrClears\<close>: a stretch of a pass either
  stays inside the pass and leaves the flag as it was, or ends the pass and clears the
  flag. \<open>passOpenOrCleared\<close>: an invocation is inside its pass or the flag is clear.
  \<open>singleFlight\<close>: the flag is set exactly when one invocation is inside a pass, and no
  two are.
\<close>

definition keepsOrClears :: "Executor \<Rightarrow> Pc \<times> Executor \<times> Event list \<Rightarrow> bool" where
  "keepsOrClears ex result =
     (case result of (pc, ex', events) \<Rightarrow>
        (inPass pc \<and> syncing ex' = syncing ex) \<or> (\<not> inPass pc \<and> \<not> syncing ex'))"

definition passOpenOrCleared :: "Pc \<times> Executor \<times> Event list \<Rightarrow> bool" where
  "passOpenOrCleared state = (case state of (pc, ex, events) \<Rightarrow> inPass pc \<or> \<not> syncing ex)"

definition singleFlight :: "System \<Rightarrow> bool" where
  "singleFlight sys =
     (length (filter inPass (calls sys)) = (if syncing (executor sys) then 1 else 0))"

section \<open>Properties of \<^verbatim>\<open>computeDeltas\<close>\<close>

lemma targetLoop_eq:
  "targetLoop follower cap targets (deltas, targetCoins) =
     (deltas @ map (targetDelta follower cap) targets, targetCoins \<union> t_coin ` set targets)"
  by (induction targets arbitrary: deltas targetCoins) (simp_all add: targetDelta_def Let_def)

lemma closeLoop_eq:
  "closeLoop entries targetCoins deltas =
     deltas @ map closingDelta (filter (closable targetCoins) entries)"
  by (induction entries arbitrary: deltas) (auto simp: closingDelta_def closable_def)

lemma computeDeltas_eq:
  "computeDeltas follower targets risk =
     map (targetDelta follower (globalNotionalCap follower risk)) targets @
     map closingDelta (filter (closable (t_coin ` set targets)) (getPositions follower))"
  by (simp add: computeDeltas_def Let_def targetLoop_eq closeLoop_eq globalNotionalCap_def)

lemma ex_targets:
  "computeTargets ex_leader ex_risk =
     [\<lparr> t_coin = ''BTC'', t_size = 1, t_notionalUsd = 50000, t_impliedEntryPrice = 50000,
        t_impliedLeverage = 1 / 20 \<rparr>]"
  by (simp add: computeTargets_def ex_leader_def ex_risk_def getMetrics_def getPositions_def
      map_values_def safeDivide_def)

lemma ex_deltas:
  "computeDeltas ex_follower (computeTargets ex_leader ex_risk) ex_risk =
     [\<lparr> d_coin = ''BTC'', d_current = None, d_targetSize = 1, d_deltaSize = 1,
        d_maxNotionalUsd = 50000 \<rparr>,
      \<lparr> d_coin = ''ETH'', d_current = Some \<lparr> p_coin = ''ETH'', p_size = 2, p_entryPrice = 3000 \<rparr>,
        d_targetSize = 0, d_deltaSize = - 2, d_maxNotionalUsd = 0 \<rparr>]"
  by (simp only: ex_targets)
    (simp add: computeDeltas_def ex_follower_def ex_risk_def getMetrics_def
      getPositions_def map_get_def safeDivide_def)

text \<open>The leader short \<open>5 \<times> 10\<^sup>-\<^sup>6\<close> ETH against the follower long 2 ETH.\<close>

lemma ex_flip_targets:
  "computeTargets ex_leader_dust_short ex_risk =
     [\<lparr> t_coin = ''ETH'', t_size = - 0.0000005, t_notionalUsd = 0.0015, t_impliedEntryPrice = 3000,
        t_impliedLeverage = 0.0000000015 \<rparr>]"
  by (simp add: computeTargets_def ex_leader_dust_short_def ex_risk_def getMetrics_def getPositions_def
      map_values_def safeDivide_def)

lemma ex_flip_deltas:
  "computeDeltas ex_follower (computeTargets ex_leader_dust_short ex_risk) ex_risk =
     [\<lparr> d_coin = ''ETH'', d_current = Some \<lparr> p_coin = ''ETH'', p_size = 2, p_entryPrice = 3000 \<rparr>,
        d_targetSize = - 0.0000005, d_deltaSize = - 2.0000005, d_maxNotionalUsd = 0.0015 \<rparr>]"
  by (simp only: ex_flip_targets)
    (simp add: computeDeltas_def ex_follower_def ex_risk_def getMetrics_def
      getPositions_def map_get_def safeDivide_def)

subsection \<open>The rounded loops\<close>

lemma targetLoop_fl_eq:
  "targetLoop_fl fl follower cap targets (deltas, targetCoins) =
     (deltas @ map (targetDelta_fl fl follower cap) targets, targetCoins \<union> t_coin ` set targets)"
  by (induction targets arbitrary: deltas targetCoins) (simp_all add: targetDelta_fl_def Let_def)

lemma computeDeltas_fl_eq:
  "computeDeltas_fl fl follower targets risk =
     map (targetDelta_fl fl follower
            (min (maxNotionalUsd risk) (fl (maxLeverage risk * accountValueUsd (getMetrics follower)))))
         targets @
     map closingDelta (filter (closable (t_coin ` set targets)) (getPositions follower))"
  by (simp add: computeDeltas_fl_def Let_def targetLoop_fl_eq closeLoop_eq)

text \<open>With the identity for \<open>fl\<close> the rounded functions are the exact ones, and the tolerance is 0.\<close>

lemma rounding_exact: "rounding 0 0 (\<lambda>x. x)"
  by (simp add: rounding_def)

lemma computeTargets_fl_exact: "computeTargets_fl (\<lambda>x. x) leader risk = computeTargets leader risk"
  by (simp add: computeTargets_fl_def computeTargets_def safeDivide_fl_def safeDivide_def)

lemma computeDeltas_fl_exact:
  "computeDeltas_fl (\<lambda>x. x) follower targets risk = computeDeltas follower targets risk"
  by (simp add: computeDeltas_fl_eq computeDeltas_eq targetDelta_fl_def targetDelta_def
      safeDivide_fl_def safeDivide_def globalNotionalCap_def)

lemma tolerance_exact: "tolerance 0 0 cap price = 0"
  by (simp add: tolerance_def)

lemma rounding_nonneg:
  assumes "rounding u eta fl" and "0 \<le> x"
  shows "0 \<le> fl x"
proof -
  from assms have "fl 0 \<le> fl x" unfolding rounding_def by blast
  moreover from assms(1) have "fl 0 = 0" unfolding rounding_def by blast
  ultimately show ?thesis by simp
qed

lemma rounding_eta: "rounding u eta fl \<Longrightarrow> 0 \<le> eta"
proof -
  assume r: "rounding u eta fl"
  then have "\<bar>fl 0 - 0\<bar> \<le> u * \<bar>0\<bar> + eta" unfolding rounding_def by blast
  with r show ?thesis by (simp add: rounding_def)
qed

lemma rounding_upper:
  assumes "rounding u eta fl" and "0 \<le> x"
  shows "fl x \<le> x * (1 + u) + eta"
proof -
  from assms(1) have "\<bar>fl x - x\<bar> \<le> u * \<bar>x\<bar> + eta" unfolding rounding_def by blast
  with assms(2) show ?thesis by (simp add: algebra_simps abs_le_iff)
qed

text \<open>The rounded cap is not negative, and above the exact cap by one rounding at most.\<close>

lemma rounded_cap:
  assumes r: "rounding u eta fl" and m: "0 \<le> maxNotional" and l: "0 \<le> product"
  shows "0 \<le> min maxNotional (fl product)"
    and "min maxNotional (fl product) \<le> min maxNotional product * (1 + u) + eta"
proof -
  have u: "0 \<le> u" and e: "0 \<le> eta" using r rounding_eta [OF r] by (simp_all add: rounding_def)
  have f0: "0 \<le> fl product" by (rule rounding_nonneg [OF r l])
  have f1: "fl product \<le> product * (1 + u) + eta" by (rule rounding_upper [OF r l])
  show "0 \<le> min maxNotional (fl product)" using m f0 by simp
  show "min maxNotional (fl product) \<le> min maxNotional product * (1 + u) + eta"
  proof (cases "maxNotional \<le> product")
    case True
    then have "min maxNotional product = maxNotional" by simp
    moreover have "maxNotional \<le> maxNotional * (1 + u) + eta"
      using m u e by (simp add: algebra_simps)
    ultimately show ?thesis by (simp add: min_le_iff_disj)
  next
    case False
    then have "min maxNotional product = product" by simp
    with f1 show ?thesis by (simp add: min_le_iff_disj)
  qed
qed

text \<open>
  The size the first loop allows, valued at the target's implied entry price. For a
  price above zero the quotient is rounded once more; for a price below zero the product
  is not positive; at price zero \<^verbatim>\<open>safeDivide\<close> gives size zero.
\<close>

lemma capped_notional_bound_fl:
  fixes cap capFl n p s u eta :: real
  assumes r: "rounding u eta fl"
    and c0: "0 \<le> capFl" and c1: "capFl \<le> cap * (1 + u) + eta" and cap: "0 \<le> cap"
    and n: "0 \<le> n"
  shows "\<bar>sgn s * safeDivide_fl fl (min n capFl) p 0\<bar> * p \<le> cap + tolerance u eta cap p"
proof -
  have u: "0 \<le> u" and e: "0 \<le> eta" using r rounding_eta [OF r] by (simp_all add: rounding_def)
  define a where "a = min n capFl"
  have a: "0 \<le> a" "a \<le> capFl" using n c0 by (simp_all add: a_def)
  have tol: "0 \<le> tolerance u eta cap p"
    using u e cap by (simp add: tolerance_def)
  consider (zero) "p = 0" | (neg) "p < 0" | (pos) "0 < p" by linarith
  then have "\<bar>sgn s * safeDivide_fl fl a p 0\<bar> * p \<le> cap + tolerance u eta cap p"
  proof cases
    case zero
    with cap tol show ?thesis by (simp add: safeDivide_fl_def)
  next
    case neg
    then have "\<bar>sgn s * safeDivide_fl fl a p 0\<bar> * p \<le> 0"
      by (simp add: mult_nonneg_nonpos)
    with cap tol show ?thesis by linarith
  next
    case pos
    let ?q = "fl (a / p)"
    have q0: "0 \<le> ?q" using a pos by (intro rounding_nonneg [OF r]) simp
    have "?q \<le> a / p * (1 + u) + eta" using a pos by (intro rounding_upper [OF r]) simp
    then have "?q * p \<le> (a / p * (1 + u) + eta) * p"
      using pos by (intro mult_right_mono) simp_all
    also have "\<dots> = a * (1 + u) + eta * p" using pos by (simp add: field_simps)
    finally have qp: "?q * p \<le> a * (1 + u) + eta * p" .
    have "a * (1 + u) \<le> (cap * (1 + u) + eta) * (1 + u)"
      using a c1 u by (intro mult_right_mono) simp_all
    with qp have bound: "?q * p \<le> (cap * (1 + u) + eta) * (1 + u) + eta * p" by linarith
    have "\<bar>sgn s * ?q\<bar> * p = \<bar>sgn s\<bar> * (?q * p)"
      using q0 by (simp add: abs_mult)
    also have "\<dots> \<le> 1 * (?q * p)"
      using q0 pos by (intro mult_right_mono) (simp_all add: sgn_real_def)
    finally have "\<bar>sgn s * ?q\<bar> * p \<le> (cap * (1 + u) + eta) * (1 + u) + eta * p"
      using bound by linarith
    also have "\<dots> = cap + tolerance u eta cap p"
      using pos by (simp add: tolerance_def algebra_simps)
    finally show ?thesis using pos by (simp add: safeDivide_fl_def)
  qed
  then show ?thesis by (simp add: a_def)
qed

text \<open>A target that \<^verbatim>\<open>computeTargets\<close> builds from an entry price that is not negative has a notional that is not negative.\<close>

lemma computeTargets_fl_nonneg:
  assumes r: "rounding u eta fl"
    and prices: "\<forall>(coin, position) \<in> set (getPositions leader). 0 \<le> p_entryPrice position"
    and t: "target \<in> set (computeTargets_fl fl leader risk)"
  shows "0 \<le> t_notionalUsd target"
proof -
  from t obtain entry where e: "entry \<in> set (getPositions leader)"
    and n: "t_notionalUsd target
              = fl (\<bar>fl (p_size (snd entry) * copyRatio risk)\<bar> * p_entryPrice (snd entry))"
    by (auto simp: computeTargets_fl_def map_values_def Let_def)
  from prices e have "0 \<le> p_entryPrice (snd entry)" by (cases entry) auto
  then have "0 \<le> \<bar>fl (p_size (snd entry) * copyRatio risk)\<bar> * p_entryPrice (snd entry)"
    by simp
  then show ?thesis unfolding n by (rule rounding_nonneg [OF r])
qed

text \<open>The leader long 30 BTC, computed with three decimals.\<close>

lemma ex_round3_rounding: "rounding 0 0.0005 ex_round3"
proof -
  have err: "\<bar>ex_round3 x - x\<bar> \<le> 0 * \<bar>x\<bar> + 0.0005" for x
  proof -
    define k where "k = real_of_int \<lfloor>x * 1000 + 1 / 2\<rfloor>"
    have "k \<le> x * 1000 + 1 / 2" unfolding k_def by (rule of_int_floor_le)
    moreover have "x * 1000 + 1 / 2 < k + 1" unfolding k_def by (rule real_of_int_floor_add_one_gt)
    ultimately have "\<bar>k - x * 1000\<bar> \<le> 1 / 2" by linarith
    then have "\<bar>k / 1000 - x\<bar> \<le> 1 / 2000" by (simp add: abs_le_iff field_simps)
    then show ?thesis by (simp add: ex_round3_def k_def)
  qed
  have mono: "ex_round3 x \<le> ex_round3 y" if "x \<le> y" for x y
  proof -
    from that have "\<lfloor>x * 1000 + 1 / 2\<rfloor> \<le> \<lfloor>y * 1000 + 1 / 2\<rfloor>" by (intro floor_mono) simp
    then show ?thesis by (simp add: ex_round3_def divide_right_mono)
  qed
  have zero: "ex_round3 0 = 0" by (simp add: ex_round3_def)
  show ?thesis unfolding rounding_def using err mono zero by blast
qed

lemma ex_targets_30:
  "computeTargets_fl ex_round3 ex_leader_30 ex_risk =
     [\<lparr> t_coin = ''BTC'', t_size = 3, t_notionalUsd = 113696.64, t_impliedEntryPrice = 37898.88,
        t_impliedLeverage = 0.114 \<rparr>]"
  by (simp add: computeTargets_fl_def ex_leader_30_def ex_risk_def getMetrics_def getPositions_def
      map_values_def safeDivide_fl_def ex_round3_def Let_def)

lemma ex_deltas_30:
  "computeDeltas_fl ex_round3 ex_follower (computeTargets_fl ex_round3 ex_leader_30 ex_risk) ex_risk =
     [\<lparr> d_coin = ''BTC'', d_current = None, d_targetSize = 2.639, d_deltaSize = 2.639,
        d_maxNotionalUsd = 100000 \<rparr>,
      \<lparr> d_coin = ''ETH'', d_current = Some \<lparr> p_coin = ''ETH'', p_size = 2, p_entryPrice = 3000 \<rparr>,
        d_targetSize = 0, d_deltaSize = - 2, d_maxNotionalUsd = 0 \<rparr>]"
  unfolding ex_targets_30
  by (simp add: computeDeltas_fl_def ex_follower_def ex_risk_def getMetrics_def
      getPositions_def map_get_def safeDivide_fl_def ex_round3_def Let_def)

subsection \<open>The notional cap (C1)\<close>

text \<open>
  Claim C1. The risk configuration and the leader's positions are those of the data
  model (a notional cap, a leverage cap and entry prices that are not negative), the
  follower's account value is not negative, and the targets are those
  \<^verbatim>\<open>computeTargets\<close> returns from the leader's positions. The code computes in binary
  floating point, and the claim's \<open>\<epsilon>\<close> is what the rounding adds: for
  every rounding \<open>fl\<close> with relative error \<open>u\<close> and absolute error \<open>eta\<close>, every delta of
  the output satisfies \<open>|targetSize| \<times> referencePrice \<le> cap + \<epsilon>\<close>, with
  \<open>cap = min(risk.maxNotionalUsd, risk.maxLeverage \<times> accountValueUsd)\<close>, the product taken
  exactly, and \<open>\<epsilon> = tolerance u eta cap referencePrice\<close>. The reference price is the
  implied entry price of the delta's target, and 0 for the closing deltas (whose target
  size is 0); deltas and reference prices are paired by position in the output. In exact
  arithmetic \<open>\<epsilon>\<close> is 0 (\<open>rounding_exact\<close>, \<open>tolerance_exact\<close>) and the functions are
  \<^verbatim>\<open>computeTargets\<close> and \<^verbatim>\<open>computeDeltas\<close> as embedded above (\<open>computeDeltas_fl_exact\<close>).
\<close>

theorem computeDeltas_notional_bound:
  assumes r: "rounding u eta fl"
    and maxNotional: "0 \<le> maxNotionalUsd risk"
    and leverage: "0 \<le> maxLeverage risk"
    and equity: "0 \<le> accountValueUsd (getMetrics follower)"
    and prices: "\<forall>(coin, position) \<in> set (getPositions leader). 0 \<le> p_entryPrice position"
  shows "list_all2
           (\<lambda>delta referencePrice.
              \<bar>d_targetSize delta\<bar> * referencePrice
                \<le> min (maxNotionalUsd risk) (maxLeverage risk * accountValueUsd (getMetrics follower))
                    + tolerance u eta
                        (min (maxNotionalUsd risk)
                           (maxLeverage risk * accountValueUsd (getMetrics follower)))
                        referencePrice)
           (computeDeltas_fl fl follower (computeTargets_fl fl leader risk) risk)
           (referencePrices (computeTargets_fl fl leader risk)
              (computeDeltas_fl fl follower (computeTargets_fl fl leader risk) risk))"
proof -
  let ?targets = "computeTargets_fl fl leader risk"
  let ?product = "maxLeverage risk * accountValueUsd (getMetrics follower)"
  let ?cap = "min (maxNotionalUsd risk) ?product"
  let ?capFl = "min (maxNotionalUsd risk) (fl ?product)"
  let ?P = "\<lambda>delta referencePrice.
              \<bar>d_targetSize delta\<bar> * referencePrice \<le> ?cap + tolerance u eta ?cap referencePrice"
  let ?closes = "filter (closable (t_coin ` set ?targets)) (getPositions follower)"
  have u: "0 \<le> u" and e: "0 \<le> eta" using r rounding_eta [OF r] by (simp_all add: rounding_def)
  have product: "0 \<le> ?product" using leverage equity by simp
  have cap: "0 \<le> ?cap" using maxNotional product by simp
  note capFl = rounded_cap [OF r maxNotional product]
  have "list_all2 ?P (map (targetDelta_fl fl follower ?capFl) ?targets)
          (map t_impliedEntryPrice ?targets)"
    unfolding list_all2_map1 list_all2_map2 list_all2_same
  proof
    fix target
    assume "target \<in> set ?targets"
    then have "0 \<le> t_notionalUsd target"
      by (rule computeTargets_fl_nonneg [OF r prices])
    from capped_notional_bound_fl [OF r capFl cap this]
    show "?P (targetDelta_fl fl follower ?capFl target) (t_impliedEntryPrice target)"
      by (simp add: targetDelta_fl_def)
  qed
  moreover have "list_all2 ?P (map closingDelta ?closes) (replicate (length ?closes) 0)"
    using cap u e by (simp add: list_all2_conv_all_nth closingDelta_def tolerance_def)
  ultimately have "list_all2 ?P (computeDeltas_fl fl follower ?targets risk)
      (map t_impliedEntryPrice ?targets @ replicate (length ?closes) 0)"
    unfolding computeDeltas_fl_eq by (rule list_all2_appendI)
  moreover have "length (computeDeltas_fl fl follower ?targets risk) - length ?targets = length ?closes"
    by (simp add: computeDeltas_fl_eq)
  ultimately show ?thesis by (simp add: referencePrices_def)
qed

text \<open>
  Two runs against a cap of 100000. The leader long 30 BTC at 37898.88, computed with
  three decimals: the target of 3 BTC is cut to \<open>100000 / 37898.88\<close>, rounded to 2.639,
  which is worth 100015.14432 at the reference price: above the cap, within the
  tolerance \<open>0.0005 + 0.0005 \<times> 37898.88\<close>. And the scenario of the spec in exact
  arithmetic: the BTC delta has target size 1 at reference price 50000, the ETH closing
  delta has target size 0, and the tolerance is 0.
\<close>

theorem computeDeltas_notional_bound_witness:
  "list_all2
     (\<lambda>delta referencePrice.
        \<bar>d_targetSize delta\<bar> * referencePrice \<le> 100000 + tolerance 0 0.0005 100000 referencePrice)
     (computeDeltas_fl ex_round3 ex_follower (computeTargets_fl ex_round3 ex_leader_30 ex_risk) ex_risk)
     [37898.88, 0] \<and>
   100000 <
     \<bar>d_targetSize
        (computeDeltas_fl ex_round3 ex_follower (computeTargets_fl ex_round3 ex_leader_30 ex_risk) ex_risk
           ! 0)\<bar> * 37898.88 \<and>
   list_all2 (\<lambda>delta referencePrice. \<bar>d_targetSize delta\<bar> * referencePrice \<le> 100000)
     (computeDeltas ex_follower (computeTargets ex_leader ex_risk) ex_risk)
     [50000, 0]"
proof -
  have cap: "min (maxNotionalUsd ex_risk) (maxLeverage ex_risk * accountValueUsd (getMetrics ex_follower))
      = 100000"
    by (simp add: ex_risk_def ex_follower_def getMetrics_def)
  have h1: "0 \<le> maxNotionalUsd ex_risk" and h2: "0 \<le> maxLeverage ex_risk"
    by (simp_all add: ex_risk_def)
  have h3: "0 \<le> accountValueUsd (getMetrics ex_follower)"
    by (simp add: ex_follower_def getMetrics_def)
  have h4: "\<forall>(coin, position) \<in> set (getPositions ex_leader_30). 0 \<le> p_entryPrice position"
    by (simp add: ex_leader_30_def getPositions_def)
  have h4': "\<forall>(coin, position) \<in> set (getPositions ex_leader). 0 \<le> p_entryPrice position"
    by (simp add: ex_leader_def getPositions_def)
  have r: "referencePrices (computeTargets_fl ex_round3 ex_leader_30 ex_risk)
             (computeDeltas_fl ex_round3 ex_follower
                (computeTargets_fl ex_round3 ex_leader_30 ex_risk) ex_risk) = [37898.88, 0]"
    unfolding ex_deltas_30 unfolding ex_targets_30 by (simp add: referencePrices_def)
  have r': "referencePrices (computeTargets ex_leader ex_risk)
             (computeDeltas ex_follower (computeTargets ex_leader ex_risk) ex_risk) = [50000, 0]"
    unfolding ex_deltas unfolding ex_targets by (simp add: referencePrices_def)
  have above: "100000 <
     \<bar>d_targetSize
        (computeDeltas_fl ex_round3 ex_follower (computeTargets_fl ex_round3 ex_leader_30 ex_risk) ex_risk
           ! 0)\<bar> * 37898.88"
    unfolding ex_deltas_30 by simp
  from computeDeltas_notional_bound [OF ex_round3_rounding h1 h2 h3 h4]
  have rounded: "list_all2
     (\<lambda>delta referencePrice.
        \<bar>d_targetSize delta\<bar> * referencePrice \<le> 100000 + tolerance 0 0.0005 100000 referencePrice)
     (computeDeltas_fl ex_round3 ex_follower (computeTargets_fl ex_round3 ex_leader_30 ex_risk) ex_risk)
     [37898.88, 0]"
    by (simp only: cap r)
  from computeDeltas_notional_bound [OF rounding_exact h1 h2 h3 h4']
  have exact: "list_all2 (\<lambda>delta referencePrice. \<bar>d_targetSize delta\<bar> * referencePrice \<le> 100000)
     (computeDeltas ex_follower (computeTargets ex_leader ex_risk) ex_risk)
     [50000, 0]"
    unfolding computeTargets_fl_exact computeDeltas_fl_exact tolerance_exact
    by (simp only: cap r' add_0_right)
  from rounded above exact show ?thesis by blast
qed

subsection \<open>Closing deltas and the order of the output (C3)\<close>

text \<open>
  Claim C3. The dust threshold of \<^verbatim>\<open>computeDeltas\<close> is the \<^verbatim>\<open>1e-9\<close> of its second loop.
  The first \<open>length targets\<close> deltas of the output are the deltas of the targets, in the
  order of the targets; what follows is exactly one closing delta (target size 0, delta
  \<open>- size\<close>, \<open>maxNotionalUsd\<close> 0, \<open>current\<close> the position) for each entry of the follower's
  \<^verbatim>\<open>Map\<close> whose coin is no target's and whose size is not under the threshold, in the
  order of the \<^verbatim>\<open>Map\<close>. So an entry with no target and a size above the threshold has its
  closing delta there, and for an entry with no target and a size under the threshold no
  delta of the output carries its coin. The hypothesis says that the association list is
  a \<^verbatim>\<open>Map\<close>: each coin is a key once.
\<close>

theorem computeDeltas_closing_deltas:
  assumes keys: "distinct (map fst (getPositions follower))"
  shows "map d_coin (take (length targets) (computeDeltas follower targets risk)) = map t_coin targets \<and>
    drop (length targets) (computeDeltas follower targets risk)
      = map (\<lambda>(coin, position).
               \<lparr> d_coin = coin, d_current = Some position, d_targetSize = 0,
                 d_deltaSize = - p_size position, d_maxNotionalUsd = 0 \<rparr>)
            (filter (\<lambda>(coin, position).
                       coin \<notin> t_coin ` set targets \<and> \<not> \<bar>p_size position\<bar> < 0.000000001)
               (getPositions follower)) \<and>
    (\<forall>(coin, position) \<in> set (getPositions follower).
       coin \<notin> t_coin ` set targets \<longrightarrow>
         (\<bar>p_size position\<bar> > 0.000000001 \<longrightarrow>
            \<lparr> d_coin = coin, d_current = Some position, d_targetSize = 0,
              d_deltaSize = - p_size position, d_maxNotionalUsd = 0 \<rparr>
              \<in> set (drop (length targets) (computeDeltas follower targets risk))) \<and>
         (\<bar>p_size position\<bar> < 0.000000001 \<longrightarrow>
            (\<forall>delta \<in> set (computeDeltas follower targets risk). d_coin delta \<noteq> coin)))"
proof (intro conjI)
  let ?out = "computeDeltas follower targets risk"
  let ?closes = "filter (closable (t_coin ` set targets)) (getPositions follower)"
  show "map d_coin (take (length targets) ?out) = map t_coin targets"
    by (simp add: computeDeltas_eq targetDelta_def comp_def)
  have dr: "drop (length targets) ?out = map closingDelta ?closes"
    by (simp add: computeDeltas_eq)
  have cl: "closingDelta = (\<lambda>(coin, position).
               \<lparr> d_coin = coin, d_current = Some position, d_targetSize = 0,
                 d_deltaSize = - p_size position, d_maxNotionalUsd = 0 \<rparr>)"
    by (auto simp: closingDelta_def fun_eq_iff)
  have cb: "closable (t_coin ` set targets) = (\<lambda>(coin, position).
                       coin \<notin> t_coin ` set targets \<and> \<not> \<bar>p_size position\<bar> < 0.000000001)"
    by (auto simp: closable_def fun_eq_iff)
  show "drop (length targets) ?out
      = map (\<lambda>(coin, position).
               \<lparr> d_coin = coin, d_current = Some position, d_targetSize = 0,
                 d_deltaSize = - p_size position, d_maxNotionalUsd = 0 \<rparr>)
            (filter (\<lambda>(coin, position).
                       coin \<notin> t_coin ` set targets \<and> \<not> \<bar>p_size position\<bar> < 0.000000001)
               (getPositions follower))"
    using dr by (simp only: cl cb)
  show "\<forall>(coin, position) \<in> set (getPositions follower).
       coin \<notin> t_coin ` set targets \<longrightarrow>
         (\<bar>p_size position\<bar> > 0.000000001 \<longrightarrow>
            \<lparr> d_coin = coin, d_current = Some position, d_targetSize = 0,
              d_deltaSize = - p_size position, d_maxNotionalUsd = 0 \<rparr>
              \<in> set (drop (length targets) ?out)) \<and>
         (\<bar>p_size position\<bar> < 0.000000001 \<longrightarrow>
            (\<forall>delta \<in> set ?out. d_coin delta \<noteq> coin))"
  proof (clarify, intro conjI impI ballI)
    fix coin position
    assume mem: "(coin, position) \<in> set (getPositions follower)"
      and absent: "coin \<notin> t_coin ` set targets"
    {
      assume "\<bar>p_size position\<bar> > 0.000000001"
      then have "(coin, position) \<in> set ?closes"
        using mem absent by (simp add: closable_def)
      then have "closingDelta (coin, position) \<in> closingDelta ` set ?closes"
        by (rule imageI)
      then have "closingDelta (coin, position) \<in> set (map closingDelta ?closes)"
        by (simp only: set_map)
      then show "\<lparr> d_coin = coin, d_current = Some position, d_targetSize = 0,
              d_deltaSize = - p_size position, d_maxNotionalUsd = 0 \<rparr>
              \<in> set (drop (length targets) ?out)"
        by (simp add: dr closingDelta_def)
    }
    {
      fix delta
      assume dust: "\<bar>p_size position\<bar> < 0.000000001" and d: "delta \<in> set ?out"
      show "d_coin delta \<noteq> coin"
      proof
        assume eq: "d_coin delta = coin"
        from d consider (fromTarget) target where "target \<in> set targets"
            "delta = targetDelta follower (globalNotionalCap follower risk) target"
          | (closing) entry where "entry \<in> set ?closes" "delta = closingDelta entry"
          by (auto simp: computeDeltas_eq)
        then show False
        proof cases
          case fromTarget
          then show False using eq absent by (auto simp: targetDelta_def)
        next
          case closing
          then have e: "entry \<in> set (getPositions follower)" "fst entry = coin"
            "\<not> \<bar>p_size (snd entry)\<bar> < 0.000000001"
            using eq by (auto simp: closingDelta_def closable_def)
          with mem keys have "snd entry = position"
            by (metis eq_key_imp_eq_value prod.collapse)
          with e dust show False by simp
        qed
      qed
    }
  qed
qed

text \<open>
  The follower of the scenario holds 2 ETH and a remainder of \<open>10\<^sup>-\<^sup>1\<^sup>0\<close> SOL, the leader
  only BTC: the output is the BTC delta, then the closing delta for ETH, and nothing for
  SOL.
\<close>

theorem computeDeltas_closing_deltas_witness:
  "computeDeltas ex_follower (computeTargets ex_leader ex_risk) ex_risk =
     [\<lparr> d_coin = ''BTC'', d_current = None, d_targetSize = 1, d_deltaSize = 1,
        d_maxNotionalUsd = 50000 \<rparr>,
      \<lparr> d_coin = ''ETH'', d_current = Some \<lparr> p_coin = ''ETH'', p_size = 2, p_entryPrice = 3000 \<rparr>,
        d_targetSize = 0, d_deltaSize = - 2, d_maxNotionalUsd = 0 \<rparr>] \<and>
   drop (length (computeTargets ex_leader ex_risk))
        (computeDeltas ex_follower (computeTargets ex_leader ex_risk) ex_risk) =
     [\<lparr> d_coin = ''ETH'', d_current = Some \<lparr> p_coin = ''ETH'', p_size = 2, p_entryPrice = 3000 \<rparr>,
        d_targetSize = 0, d_deltaSize = - 2, d_maxNotionalUsd = 0 \<rparr>]"
proof -
  have keys: "distinct (map fst (getPositions ex_follower))"
    by (simp add: ex_follower_def getPositions_def)
  from computeDeltas_closing_deltas [OF keys, of "computeTargets ex_leader ex_risk" ex_risk]
  have "drop (length (computeTargets ex_leader ex_risk))
        (computeDeltas ex_follower (computeTargets ex_leader ex_risk) ex_risk) =
      map (\<lambda>(coin, position).
               \<lparr> d_coin = coin, d_current = Some position, d_targetSize = 0,
                 d_deltaSize = - p_size position, d_maxNotionalUsd = 0 \<rparr>)
            (filter (\<lambda>(coin, position).
                       coin \<notin> t_coin ` set (computeTargets ex_leader ex_risk) \<and>
                       \<not> \<bar>p_size position\<bar> < 0.000000001)
               (getPositions ex_follower))"
    by (rule conjunct1 [OF conjunct2])
  then have "drop (length (computeTargets ex_leader ex_risk))
        (computeDeltas ex_follower (computeTargets ex_leader ex_risk) ex_risk) =
     [\<lparr> d_coin = ''ETH'', d_current = Some \<lparr> p_coin = ''ETH'', p_size = 2, p_entryPrice = 3000 \<rparr>,
        d_targetSize = 0, d_deltaSize = - 2, d_maxNotionalUsd = 0 \<rparr>]"
    by (simp add: ex_targets ex_follower_def getPositions_def)
  then show ?thesis by (simp add: ex_deltas)
qed

subsection \<open>The direction of a capped target (C8)\<close>

text \<open>The notional of a target that \<^verbatim>\<open>computeTargets\<close> returns is \<open>|size| \<times> impliedEntryPrice\<close>.\<close>

lemma computeTargets_notional:
  assumes "i < length (computeTargets leader risk)"
  shows "t_notionalUsd (computeTargets leader risk ! i)
           = \<bar>t_size (computeTargets leader risk ! i)\<bar> * t_impliedEntryPrice (computeTargets leader risk ! i)"
  using assms by (simp add: computeTargets_def map_values_def Let_def)

text \<open>
  The allowed notional is not negative. The allowed size is its quotient by the price: for
  a price that is not negative the quotient is not negative; a negative price leaves a
  notional \<open>|s| \<times> p\<close> that is not negative only for size 0, and then the sign is 0.
\<close>

lemma capped_direction:
  fixes cap n p s :: real
  assumes cap: "0 \<le> cap" and n: "0 \<le> n" and rel: "n = \<bar>s\<bar> * p"
  shows "sgn s * safeDivide (min n cap) p 0 = 0 \<or>
         sgn (sgn s * safeDivide (min n cap) p 0) = sgn s"
proof (cases "0 \<le> p")
  case True
  with cap n have q: "0 \<le> safeDivide (min n cap) p 0" by (simp add: safeDivide_def)
  show ?thesis
  proof (cases "safeDivide (min n cap) p 0 = 0")
    case True
    then show ?thesis by simp
  next
    case False
    with q have "0 < safeDivide (min n cap) p 0" by simp
    then show ?thesis by (simp add: sgn_mult)
  qed
next
  case False
  then have "p < 0" by simp
  then have "\<bar>s\<bar> * p \<le> 0" by (simp add: mult_nonneg_nonpos)
  with n rel have "\<bar>s\<bar> * p = 0" by simp
  with \<open>p < 0\<close> have "s = 0" by simp
  then show ?thesis by simp
qed

text \<open>
  Claim C8. For every risk configuration with \<open>maxNotionalUsd \<ge> 0\<close> and
  \<open>maxLeverage \<times> accountValueUsd \<ge> 0\<close> of the follower, and every target with
  \<open>notionalUsd \<ge> 0\<close>, the delta that \<^verbatim>\<open>computeDeltas\<close> produces for the target has a target
  size that is zero or has the sign of the target's size. The targets are those that
  \<^verbatim>\<open>computeTargets\<close> returns, in the \<open>i\<close>-th place of its output; the delta of the \<open>i\<close>-th
  target is the \<open>i\<close>-th delta.
\<close>

theorem computeDeltas_direction:
  assumes "0 \<le> maxNotionalUsd risk"
    and "0 \<le> maxLeverage risk * accountValueUsd (getMetrics follower)"
    and "i < length (computeTargets leader risk)"
    and "0 \<le> t_notionalUsd (computeTargets leader risk ! i)"
  shows "d_targetSize (computeDeltas follower (computeTargets leader risk) risk ! i) = 0 \<or>
         sgn (d_targetSize (computeDeltas follower (computeTargets leader risk) risk ! i))
           = sgn (t_size (computeTargets leader risk ! i))"
proof -
  let ?t = "computeTargets leader risk ! i"
  have cap: "0 \<le> globalNotionalCap follower risk"
    using assms(1,2) by (simp add: globalNotionalCap_def)
  have d: "d_targetSize (computeDeltas follower (computeTargets leader risk) risk ! i)
            = sgn (t_size ?t) *
                safeDivide (min (t_notionalUsd ?t) (globalNotionalCap follower risk))
                  (t_impliedEntryPrice ?t) 0"
    using assms(3) by (simp add: computeDeltas_eq nth_append targetDelta_def)
  show ?thesis
    unfolding d
    by (rule capped_direction [OF cap assms(4) computeTargets_notional [OF assms(3)]])
qed

text \<open>
  The scenario of the spec: the BTC target is long 1, and so is the follower's target
  size. And the leader short \<open>5 \<times> 10\<^sup>-\<^sup>6\<close> ETH: target and target size are short
  \<open>5 \<times> 10\<^sup>-\<^sup>7\<close>.
\<close>

theorem computeDeltas_direction_witness:
  "d_targetSize (computeDeltas ex_follower (computeTargets ex_leader ex_risk) ex_risk ! 0) = 1 \<and>
   t_size (computeTargets ex_leader ex_risk ! 0) = 1 \<and>
   sgn (d_targetSize (computeDeltas ex_follower (computeTargets ex_leader_dust_short ex_risk) ex_risk ! 0))
     = - 1 \<and>
   t_size (computeTargets ex_leader_dust_short ex_risk ! 0) = - 0.0000005"
proof -
  have h1: "0 \<le> maxNotionalUsd ex_risk" by (simp add: ex_risk_def)
  have h2: "0 \<le> maxLeverage ex_risk * accountValueUsd (getMetrics ex_follower)"
    by (simp add: ex_risk_def ex_follower_def getMetrics_def)
  have h3: "0 < length (computeTargets ex_leader ex_risk)" by (simp add: ex_targets)
  have h4: "0 \<le> t_notionalUsd (computeTargets ex_leader ex_risk ! 0)" by (simp add: ex_targets)
  have t: "t_size (computeTargets ex_leader ex_risk ! 0) = 1" by (simp add: ex_targets)
  from computeDeltas_direction [OF h1 h2 h3 h4]
  have "d_targetSize (computeDeltas ex_follower (computeTargets ex_leader ex_risk) ex_risk ! 0) = 0 \<or>
     sgn (d_targetSize (computeDeltas ex_follower (computeTargets ex_leader ex_risk) ex_risk ! 0)) = 1"
    by (simp add: t)
  then have long: "d_targetSize (computeDeltas ex_follower (computeTargets ex_leader ex_risk) ex_risk ! 0) = 1"
    by (simp add: ex_deltas)
  have g3: "0 < length (computeTargets ex_leader_dust_short ex_risk)" by (simp add: ex_flip_targets)
  have g4: "0 \<le> t_notionalUsd (computeTargets ex_leader_dust_short ex_risk ! 0)"
    by (simp add: ex_flip_targets)
  have t': "t_size (computeTargets ex_leader_dust_short ex_risk ! 0) = - 0.0000005"
    by (simp add: ex_flip_targets)
  have n: "d_targetSize (computeDeltas ex_follower (computeTargets ex_leader_dust_short ex_risk) ex_risk ! 0)
      \<noteq> 0"
    by (simp add: ex_flip_deltas)
  from computeDeltas_direction [OF h1 h2 g3 g4] n
  have short: "sgn (d_targetSize
      (computeDeltas ex_follower (computeTargets ex_leader_dust_short ex_risk) ex_risk ! 0)) = - 1"
    by (simp add: t')
  from long t short t' show ?thesis by blast
qed

section \<open>Properties of \<^verbatim>\<open>computeTargets\<close>\<close>

lemma computeTargets_nth:
  assumes "i < length (getPositions leader)"
  shows "computeTargets leader risk ! i =
     \<lparr> t_coin = p_coin (snd (getPositions leader ! i)),
       t_size = p_size (snd (getPositions leader ! i)) * copyRatio risk,
       t_notionalUsd = \<bar>p_size (snd (getPositions leader ! i)) * copyRatio risk\<bar>
                         * p_entryPrice (snd (getPositions leader ! i)),
       t_impliedEntryPrice = p_entryPrice (snd (getPositions leader ! i)),
       t_impliedLeverage =
         safeDivide (\<bar>p_size (snd (getPositions leader ! i)) * copyRatio risk\<bar>
                       * p_entryPrice (snd (getPositions leader ! i)))
           (accountValueUsd (getMetrics leader)) 0 \<rparr>"
  using assms by (simp add: computeTargets_def map_values_def Let_def)

text \<open>\<^verbatim>\<open>computeTargets\<close> leaves the store as its two calls leave it.\<close>

lemma computeTargets_on_store:
  assumes "\<forall>s. snd (callGetMetrics s) = s" and "\<forall>s. snd (callGetPositions s) = s"
  shows "snd (computeTargets_on callGetMetrics callGetPositions risk this) = this"
  using assms by (simp add: computeTargets_on_def split_def Let_def)

lemma computeTargets_on_read_only:
  "computeTargets_on (\<lambda>s. (getMetrics s, s)) (\<lambda>s. (getPositions s, s)) risk leader
     = (computeTargets leader risk, leader)"
  by (simp add: computeTargets_on_def computeTargets_def Let_def)

text \<open>
  Claim C6. \<^verbatim>\<open>computeTargets\<close> returns one target per entry of the leader's \<^verbatim>\<open>Map\<close>, the
  \<open>i\<close>-th target from the \<open>i\<close>-th position, with the coin of the position,
  size = leader size \<times> copyRatio, notionalUsd = |scaled size| \<times> entry price,
  impliedEntryPrice = entry price, and impliedLeverage the value of
  \<^verbatim>\<open>safeDivide(notionalUsd, accountValueUsd, 0)\<close>: 0 when the leader's account value is 0,
  and otherwise the number that multiplied by the account value gives the notional. The
  guard of \<^verbatim>\<open>safeDivide\<close> is what gives the first: on a zero denominator it returns the
  fallback it was given, whichever it is. It is a read: for any two accessors that leave
  the store as it is, the store after \<^verbatim>\<open>computeTargets\<close> is the store before, and with the
  two read accessors of the store the result is the list and the store untouched.
\<close>

theorem computeTargets_fields:
  "length (computeTargets leader risk) = length (getPositions leader) \<and>
   (\<forall>i < length (getPositions leader).
      let position = snd (getPositions leader ! i);
          target = computeTargets leader risk ! i;
          leaderValue = accountValueUsd (getMetrics leader)
      in t_coin target = p_coin position \<and>
         t_size target = p_size position * copyRatio risk \<and>
         t_notionalUsd target = \<bar>t_size target\<bar> * p_entryPrice position \<and>
         t_impliedEntryPrice target = p_entryPrice position \<and>
         t_impliedLeverage target = safeDivide (t_notionalUsd target) leaderValue 0 \<and>
         (leaderValue = 0 \<longrightarrow> t_impliedLeverage target = 0) \<and>
         (leaderValue \<noteq> 0 \<longrightarrow> t_impliedLeverage target * leaderValue = t_notionalUsd target)) \<and>
   (\<forall>numerator fallback. safeDivide numerator 0 fallback = fallback) \<and>
   ((\<forall>s. snd (callGetMetrics s) = s) \<and> (\<forall>s. snd (callGetPositions s) = s) \<longrightarrow>
      snd (computeTargets_on callGetMetrics callGetPositions risk leader) = leader) \<and>
   computeTargets_on (\<lambda>s. (getMetrics s, s)) (\<lambda>s. (getPositions s, s)) risk leader
     = (computeTargets leader risk, leader)"
proof (intro conjI)
  show "length (computeTargets leader risk) = length (getPositions leader)"
    by (simp add: computeTargets_def map_values_def)
next
  show "\<forall>i < length (getPositions leader).
      let position = snd (getPositions leader ! i);
          target = computeTargets leader risk ! i;
          leaderValue = accountValueUsd (getMetrics leader)
      in t_coin target = p_coin position \<and>
         t_size target = p_size position * copyRatio risk \<and>
         t_notionalUsd target = \<bar>t_size target\<bar> * p_entryPrice position \<and>
         t_impliedEntryPrice target = p_entryPrice position \<and>
         t_impliedLeverage target = safeDivide (t_notionalUsd target) leaderValue 0 \<and>
         (leaderValue = 0 \<longrightarrow> t_impliedLeverage target = 0) \<and>
         (leaderValue \<noteq> 0 \<longrightarrow> t_impliedLeverage target * leaderValue = t_notionalUsd target)"
    by (simp add: computeTargets_nth Let_def safeDivide_def)
next
  show "\<forall>numerator fallback. safeDivide numerator 0 fallback = fallback"
    by (simp add: safeDivide_def)
next
  show "(\<forall>s. snd (callGetMetrics s) = s) \<and> (\<forall>s. snd (callGetPositions s) = s) \<longrightarrow>
      snd (computeTargets_on callGetMetrics callGetPositions risk leader) = leader"
    using computeTargets_on_store by blast
next
  show "computeTargets_on (\<lambda>s. (getMetrics s, s)) (\<lambda>s. (getPositions s, s)) risk leader
     = (computeTargets leader risk, leader)"
    by (rule computeTargets_on_read_only)
qed

text \<open>
  The leader of the scenario, and the same leader with an account value of 0: the
  notional is 50000 for both, the implied leverage is \<open>50000 / 1000000\<close>, then 0; and the
  store comes back as it was.
\<close>

theorem computeTargets_fields_witness:
  "length (computeTargets ex_leader ex_risk) = 1 \<and>
   computeTargets ex_leader ex_risk ! 0 =
     \<lparr> t_coin = ''BTC'', t_size = 1, t_notionalUsd = 50000, t_impliedEntryPrice = 50000,
       t_impliedLeverage = 1 / 20 \<rparr> \<and>
   t_notionalUsd (computeTargets ex_leader_no_equity ex_risk ! 0) = 50000 \<and>
   t_impliedLeverage (computeTargets ex_leader_no_equity ex_risk ! 0) = 0 \<and>
   computeTargets_on (\<lambda>s. (getMetrics s, s)) (\<lambda>s. (getPositions s, s)) ex_risk ex_leader
     = (computeTargets ex_leader ex_risk, ex_leader)"
proof -
  let ?read_metrics = "\<lambda>s. (getMetrics s, s)"
  let ?read_positions = "\<lambda>s. (getPositions s, s)"
  let ?t = "computeTargets ex_leader ex_risk ! 0"
  let ?p = "snd (getPositions ex_leader ! 0)"
  let ?t' = "computeTargets ex_leader_no_equity ex_risk ! 0"
  let ?p' = "snd (getPositions ex_leader_no_equity ! 0)"
  note a = computeTargets_fields [of ex_leader ex_risk ?read_metrics ?read_positions]
  note b = computeTargets_fields [of ex_leader_no_equity ex_risk ?read_metrics ?read_positions]
  have la: "0 < length (getPositions ex_leader)" by (simp add: ex_leader_def getPositions_def)
  have lb: "0 < length (getPositions ex_leader_no_equity)"
    by (simp add: ex_leader_no_equity_def getPositions_def)
  have p: "?p = \<lparr> p_coin = ''BTC'', p_size = 10, p_entryPrice = 50000 \<rparr>"
    by (simp add: ex_leader_def getPositions_def)
  have p': "?p' = \<lparr> p_coin = ''BTC'', p_size = 10, p_entryPrice = 50000 \<rparr>"
    by (simp add: ex_leader_no_equity_def getPositions_def)
  have v: "accountValueUsd (getMetrics ex_leader) = 1000000"
    by (simp add: ex_leader_def getMetrics_def)
  have v': "accountValueUsd (getMetrics ex_leader_no_equity) = 0"
    by (simp add: ex_leader_no_equity_def getMetrics_def)
  have c: "copyRatio ex_risk = 1 / 10" by (simp add: ex_risk_def)
  from a have l: "length (computeTargets ex_leader ex_risk) = length (getPositions ex_leader)"
    by (rule conjunct1)
  from a have s: "computeTargets_on ?read_metrics ?read_positions ex_risk ex_leader
      = (computeTargets ex_leader ex_risk, ex_leader)"
    by blast
  from a la have "t_coin ?t = p_coin ?p \<and>
      t_size ?t = p_size ?p * copyRatio ex_risk \<and>
      t_notionalUsd ?t = \<bar>t_size ?t\<bar> * p_entryPrice ?p \<and>
      t_impliedEntryPrice ?t = p_entryPrice ?p \<and>
      (accountValueUsd (getMetrics ex_leader) \<noteq> 0 \<longrightarrow>
         t_impliedLeverage ?t * accountValueUsd (getMetrics ex_leader) = t_notionalUsd ?t)"
    unfolding Let_def by blast
  then have f: "t_coin ?t = ''BTC'' \<and> t_size ?t = 1 \<and> t_notionalUsd ?t = 50000 \<and>
      t_impliedEntryPrice ?t = 50000 \<and> t_impliedLeverage ?t = 1 / 20"
    unfolding p v c by auto
  from b lb have "t_size ?t' = p_size ?p' * copyRatio ex_risk \<and>
      t_notionalUsd ?t' = \<bar>t_size ?t'\<bar> * p_entryPrice ?p' \<and>
      (accountValueUsd (getMetrics ex_leader_no_equity) = 0 \<longrightarrow> t_impliedLeverage ?t' = 0)"
    unfolding Let_def by blast
  then have f': "t_notionalUsd ?t' = 50000 \<and> t_impliedLeverage ?t' = 0"
    unfolding p' v' c by auto
  have r: "\<And>t. t_coin t = ''BTC'' \<and> t_size t = 1 \<and> t_notionalUsd t = 50000 \<and>
      t_impliedEntryPrice t = 50000 \<and> t_impliedLeverage t = 1 / 20 \<Longrightarrow>
      t = \<lparr> t_coin = ''BTC'', t_size = 1, t_notionalUsd = 50000, t_impliedEntryPrice = 50000,
       t_impliedLeverage = 1 / 20 \<rparr>"
    by simp
  from l have l1: "length (computeTargets ex_leader ex_risk) = 1"
    by (simp add: ex_leader_def getPositions_def)
  from l1 r [OF f] f' s show ?thesis by blast
qed

section \<open>Properties of \<^verbatim>\<open>buildOrder\<close>\<close>

subsection \<open>Rendering sizes\<close>

lemma digitsOf_0: "digitsOf 0 = ''0''"
  by (simp add: digitsOf.simps digitChar_def)

lemma placePoint_zero:
  "placePoint ''0'' f = (if f = 0 then ''0'' else ''0.'' @ replicate f (CHR ''0''))"
  by (simp add: placePoint_def Let_def replicate_append_same)

lemma roundedAt_below_half_step:
  assumes "\<bar>x\<bar> < (1 / 2) / 10 ^ f"
  shows "roundedAt x f = 0"
proof -
  have "\<bar>x\<bar> * 10 ^ f < 1 / 2"
    using assms by (simp add: pos_less_divide_eq)
  then have "\<lfloor>\<bar>x\<bar> * 10 ^ f + 1 / 2\<rfloor> = 0"
    by (intro floor_unique) simp_all
  then show ?thesis by (simp add: roundedAt_def)
qed

lemma toFixed_below_half_step:
  assumes small: "\<bar>x\<bar> < (1 / 2) / 10 ^ f" and digits: "f \<le> 100"
  shows "toFixed x f =
           Inr (Literal ((if x < 0 then ''-'' else []) @
                         (if f = 0 then ''0'' else ''0.'' @ replicate f (CHR ''0''))))"
proof -
  have "1 \<le> (10::real) ^ f" by simp
  then have "(1 / 2) / 10 ^ f \<le> (1 / 2 :: real)"
    by (simp add: field_simps)
  moreover have "(1 / 2 :: real) < 10 ^ 21" by simp
  ultimately have below: "\<not> \<bar>x\<bar> \<ge> 10 ^ 21" using small by linarith
  show ?thesis
    using digits below
    by (simp add: toFixed_def roundedAt_below_half_step [OF small] digitsOf_0 placePoint_zero)
qed

lemma digitsOf_100000: "digitsOf 100000 = ''100000''"
  by (simp add: digitsOf.simps digitChar_def)

lemma digitsOf_20000: "digitsOf 20000 = ''20000''"
  by (simp add: digitsOf.simps digitChar_def)

lemma toFixed_1_5: "toFixed 1 5 = Inr (Literal ''1.00000'')"
proof -
  have "roundedAt 1 5 = 100000" by (simp add: roundedAt_def)
  moreover have "placePoint ''100000'' 5 = ''1.00000''" by (simp add: placePoint_def)
  ultimately show ?thesis by (simp add: toFixed_def digitsOf_100000)
qed

lemma toFixed_2_4: "toFixed 2 4 = Inr (Literal ''2.0000'')"
proof -
  have "roundedAt 2 4 = 20000" by (simp add: roundedAt_def)
  moreover have "placePoint ''20000'' 4 = ''2.0000''" by (simp add: placePoint_def)
  ultimately show ?thesis by (simp add: toFixed_def digitsOf_20000)
qed

subsection \<open>What an order is made of\<close>

text \<open>
  When \<^verbatim>\<open>buildOrder\<close> returns an order, the market is known, \<^verbatim>\<open>toFixed\<close> returned the size
  string, and side, price and reduce-only flag are the values of the locals of those
  names.
\<close>

lemma buildOrder_Inr:
  assumes "buildOrder risk metadataService uuid delta = Inr order"
  shows "\<exists>metadata sizeText.
           metadataService (d_coin delta) = Some metadata \<and>
           toFixed \<bar>d_deltaSize delta\<bar> (m_sizeDecimals metadata) = Inr sizeText \<and>
           o_b order = (d_deltaSize delta > 0) \<and>
           o_s order = sizeText \<and>
           o_p order =
             NumberToString
               (let markPrice =
                      (case m_markPrice metadata of
                         Some mark \<Rightarrow> mark
                       | None \<Rightarrow> (case d_current delta of Some cur \<Rightarrow> p_entryPrice cur | None \<Rightarrow> 0))
                in clamp (markPrice * (if d_deltaSize delta > 0
                                       then 1 + maxSlippageBps risk / 10000
                                       else 1 - maxSlippageBps risk / 10000))
                     (markPrice * 0.1) (markPrice * 10)) \<and>
           o_r order =
             (case d_current delta of
                None \<Rightarrow> False
              | Some cur \<Rightarrow> \<bar>d_targetSize delta\<bar> < MIN_ABS_DELTA \<or>
                           (sgn (p_size cur) = sgn (d_targetSize delta) \<and>
                            \<bar>d_targetSize delta\<bar> < \<bar>p_size cur\<bar>))"
proof (cases "metadataService (d_coin delta)")
  case None
  with assms show ?thesis by (simp add: buildOrder_def requireByCoin_def)
next
  case (Some metadata)
  show ?thesis
  proof (cases "toFixed \<bar>d_deltaSize delta\<bar> (m_sizeDecimals metadata)")
    case (Inl e)
    with assms Some show ?thesis by (simp add: buildOrder_def requireByCoin_def Let_def)
  next
    case (Inr sizeText)
    with assms Some have "order = \<lparr> o_a = m_assetId metadata,
        o_b = (d_deltaSize delta > 0),
        o_p = NumberToString
               (let markPrice =
                      (case m_markPrice metadata of
                         Some mark \<Rightarrow> mark
                       | None \<Rightarrow> (case d_current delta of Some cur \<Rightarrow> p_entryPrice cur | None \<Rightarrow> 0))
                in clamp (markPrice * (if d_deltaSize delta > 0
                                       then 1 + maxSlippageBps risk / 10000
                                       else 1 - maxSlippageBps risk / 10000))
                     (markPrice * 0.1) (markPrice * 10)),
        o_s = sizeText,
        o_r = (case d_current delta of
                None \<Rightarrow> False
              | Some cur \<Rightarrow> \<bar>d_targetSize delta\<bar> < MIN_ABS_DELTA \<or>
                           (sgn (p_size cur) = sgn (d_targetSize delta) \<and>
                            \<bar>d_targetSize delta\<bar> < \<bar>p_size cur\<bar>)),
        o_t = LimitIoc,
        o_c = ''0x'' @ take 32 (filter (\<lambda>ch. ch \<noteq> CHR ''-'') uuid) \<rparr>"
      by (auto simp: buildOrder_def requireByCoin_def getMarkPrice_def Let_def split: option.splits)
    with Some Inr show ?thesis by simp
  qed
qed

lemma ex_order_btc:
  "buildOrder ex_risk ex_metadata ex_uuid
     \<lparr> d_coin = ''BTC'', d_current = None, d_targetSize = 1, d_deltaSize = 1,
        d_maxNotionalUsd = 50000 \<rparr> =
   Inr \<lparr> o_a = 0, o_b = True, o_p = NumberToString 50225.25, o_s = Literal ''1.00000'',
         o_r = False, o_t = LimitIoc, o_c = ''0x123e4567e89b12d3a456426614174000'' \<rparr>"
  by (simp add: buildOrder_def requireByCoin_def getMarkPrice_def ex_metadata_def ex_risk_def
      ex_uuid_def clamp_def toFixed_1_5 Let_def)

lemma ex_order_eth:
  "buildOrder ex_risk ex_metadata ex_uuid
     \<lparr> d_coin = ''ETH'', d_current = Some \<lparr> p_coin = ''ETH'', p_size = 2, p_entryPrice = 3000 \<rparr>,
        d_targetSize = 0, d_deltaSize = - 2, d_maxNotionalUsd = 0 \<rparr> =
   Inr \<lparr> o_a = 1, o_b = False, o_p = NumberToString 2992.5, o_s = Literal ''2.0000'',
         o_r = True, o_t = LimitIoc, o_c = ''0x123e4567e89b12d3a456426614174000'' \<rparr>"
  by (simp add: buildOrder_def requireByCoin_def getMarkPrice_def ex_metadata_def ex_risk_def
      ex_uuid_def clamp_def toFixed_2_4 MIN_ABS_DELTA_def Let_def)


text \<open>
  An order is built exactly for the deltas of a known market with at most 100 size
  decimals: \<^verbatim>\<open>requireByCoin\<close> and \<^verbatim>\<open>toFixed\<close> are the only calls of \<^verbatim>\<open>buildOrder\<close> that
  throw.
\<close>

lemma buildOrder_builds:
  "(\<exists>order. buildOrder risk metadataService uuid delta = Inr order) =
   (\<exists>metadata. metadataService (d_coin delta) = Some metadata \<and> m_sizeDecimals metadata \<le> 100)"
proof (cases "metadataService (d_coin delta)")
  case None
  then show ?thesis by (simp add: buildOrder_def requireByCoin_def)
next
  case (Some metadata)
  show ?thesis
  proof (cases "m_sizeDecimals metadata \<le> 100")
    case True
    with Some show ?thesis
      by (simp add: buildOrder_def requireByCoin_def toFixed_def Let_def)
  next
    case False
    with Some show ?thesis
      by (simp add: buildOrder_def requireByCoin_def toFixed_def Let_def)
  qed
qed



subsection \<open>The reduce-only flag (C4)\<close>




subsection \<open>Side and limit price (C5)\<close>

text \<open>
  Claim C5. For every delta on a known market with at most 100 size decimals an order
  is built, and for the order that is built: the side is buy exactly when
  \<open>deltaSize > 0\<close>; the reference price is the coin's mark price, else the entry price of
  the current position, else 0; the limit price is the reference price times
  \<open>1 + maxSlippageBps/10000\<close> for a buy and \<open>1 - maxSlippageBps/10000\<close> for a sell, clamped
  with lower bound \<open>0.1 \<times>\<close> and upper bound \<open>10 \<times>\<close> the reference price. For a reference price
  that is not negative (so that the two bounds are an interval) the price lies in the
  interval and is the unclamped value when that lies in it. With no mark price and no
  current position an order is built all the same, and its price is 0. The order carries
  the price as the string \<^verbatim>\<open>price.toString()\<close>, which is \<open>NumberToString price\<close> here.
\<close>

theorem buildOrder_side_and_price:
  assumes known: "metadataService (d_coin delta) = Some metadata"
    and digits: "m_sizeDecimals metadata \<le> 100"
  shows "(\<exists>order. buildOrder risk metadataService uuid delta = Inr order) \<and>
         (\<forall>order. buildOrder risk metadataService uuid delta = Inr order \<longrightarrow>
            (let referencePrice =
                   (case getMarkPrice metadataService (d_coin delta) of
                      Some mark \<Rightarrow> mark
                    | None \<Rightarrow> (case d_current delta of Some cur \<Rightarrow> p_entryPrice cur | None \<Rightarrow> 0));
                 unclamped =
                   (if d_deltaSize delta > 0
                    then referencePrice * (1 + maxSlippageBps risk / 10000)
                    else referencePrice * (1 - maxSlippageBps risk / 10000));
                 price = min (max unclamped (0.1 * referencePrice)) (10 * referencePrice)
             in o_b order = (d_deltaSize delta > 0) \<and>
                o_p order = NumberToString price \<and>
                (0 \<le> referencePrice \<longrightarrow>
                   0.1 * referencePrice \<le> price \<and> price \<le> 10 * referencePrice \<and>
                   (0.1 * referencePrice \<le> unclamped \<and> unclamped \<le> 10 * referencePrice
                      \<longrightarrow> price = unclamped)))) \<and>
         (getMarkPrice metadataService (d_coin delta) = None \<and> d_current delta = None \<longrightarrow>
            (\<exists>order. buildOrder risk metadataService uuid delta = Inr order \<and>
                     o_p order = NumberToString 0))"
proof -
  have ex: "\<exists>order. buildOrder risk metadataService uuid delta = Inr order"
    using known digits by (auto simp: buildOrder_builds)
  have g: "getMarkPrice metadataService (d_coin delta) = m_markPrice metadata"
    by (simp add: getMarkPrice_def known)
  have p: "o_p order =
             NumberToString
               (let markPrice =
                      (case m_markPrice metadata of
                         Some mark \<Rightarrow> mark
                       | None \<Rightarrow> (case d_current delta of Some cur \<Rightarrow> p_entryPrice cur | None \<Rightarrow> 0))
                in clamp (markPrice * (if d_deltaSize delta > 0
                                       then 1 + maxSlippageBps risk / 10000
                                       else 1 - maxSlippageBps risk / 10000))
                     (markPrice * 0.1) (markPrice * 10))"
    and b: "o_b order = (d_deltaSize delta > 0)"
    if "buildOrder risk metadataService uuid delta = Inr order" for order
    using buildOrder_Inr [OF that] known by auto
  have props: "let referencePrice =
                   (case getMarkPrice metadataService (d_coin delta) of
                      Some mark \<Rightarrow> mark
                    | None \<Rightarrow> (case d_current delta of Some cur \<Rightarrow> p_entryPrice cur | None \<Rightarrow> 0));
                 unclamped =
                   (if d_deltaSize delta > 0
                    then referencePrice * (1 + maxSlippageBps risk / 10000)
                    else referencePrice * (1 - maxSlippageBps risk / 10000));
                 price = min (max unclamped (0.1 * referencePrice)) (10 * referencePrice)
             in o_b order = (d_deltaSize delta > 0) \<and>
                o_p order = NumberToString price \<and>
                (0 \<le> referencePrice \<longrightarrow>
                   0.1 * referencePrice \<le> price \<and> price \<le> 10 * referencePrice \<and>
                   (0.1 * referencePrice \<le> unclamped \<and> unclamped \<le> 10 * referencePrice
                      \<longrightarrow> price = unclamped))"
    if "buildOrder risk metadataService uuid delta = Inr order" for order
    unfolding g p [OF that] b [OF that]
    by (auto simp: clamp_def Let_def mult.commute split: option.splits)
  have zero: "o_p order = NumberToString 0"
    if "buildOrder risk metadataService uuid delta = Inr order"
      and "getMarkPrice metadataService (d_coin delta) = None" and "d_current delta = None"
    for order
    using that(2,3) unfolding g p [OF that(1)] by (simp add: clamp_def)
  show ?thesis
    using ex props zero by blast
qed

text \<open>
  The scenario of the spec: the first delta of \<^verbatim>\<open>computeDeltas\<close> is a buy of 1 BTC, at
  mark price 50100 and 25 basis points the order has the limit price 50225.25. And a
  DOGE delta with no current position on a market with no mark price yet: the order is
  built, with price 0.
\<close>

theorem buildOrder_side_and_price_witness:
  "(\<exists>order. buildOrder ex_risk ex_metadata ex_uuid
             (computeDeltas ex_follower (computeTargets ex_leader ex_risk) ex_risk ! 0) = Inr order \<and>
           o_b order \<and> o_p order = NumberToString 50225.25) \<and>
   (\<exists>order. buildOrder ex_risk ex_metadata ex_uuid ex_dust_delta = Inr order \<and>
           o_p order = NumberToString 0)"
proof -
  let ?delta = "computeDeltas ex_follower (computeTargets ex_leader ex_risk) ex_risk ! 0"
  let ?open = "\<lparr> d_coin = ''BTC'', d_current = None, d_targetSize = 1, d_deltaSize = 1,
        d_maxNotionalUsd = 50000 \<rparr>"
  let ?btc = "\<lparr> m_coin = ''BTC'', m_assetId = 0, m_sizeDecimals = 5, m_markPrice = Some 50100 \<rparr>"
  let ?doge = "\<lparr> m_coin = ''DOGE'', m_assetId = 12, m_sizeDecimals = 2, m_markPrice = None \<rparr>"
  have d: "?delta = ?open" by (simp add: ex_deltas)
  have b1: "ex_metadata (d_coin ?open) = Some ?btc" by (simp add: ex_metadata_def)
  have b2: "m_sizeDecimals ?btc \<le> 100" by simp
  have m: "getMarkPrice ex_metadata ''BTC'' = Some 50100"
    by (simp add: getMarkPrice_def ex_metadata_def)
  note btc = buildOrder_side_and_price [where metadataService = ex_metadata and metadata = ?btc
      and risk = ex_risk and uuid = ex_uuid and delta = ?open, OF b1 b2]
  from btc obtain order where o: "buildOrder ex_risk ex_metadata ex_uuid ?open = Inr order"
    by blast
  with btc have "o_b order \<and> o_p order = NumberToString 50225.25"
    by (simp add: m ex_risk_def Let_def)
  with o have first: "\<exists>order. buildOrder ex_risk ex_metadata ex_uuid ?open = Inr order \<and>
           o_b order \<and> o_p order = NumberToString 50225.25"
    by blast
  have c1: "ex_metadata (d_coin ex_dust_delta) = Some ?doge"
    by (simp add: ex_metadata_def ex_dust_delta_def)
  have c2: "m_sizeDecimals ?doge \<le> 100" by simp
  have c3: "getMarkPrice ex_metadata (d_coin ex_dust_delta) = None \<and> d_current ex_dust_delta = None"
    by (simp add: getMarkPrice_def ex_metadata_def ex_dust_delta_def)
  from buildOrder_side_and_price [where metadataService = ex_metadata and metadata = ?doge
      and risk = ex_risk and uuid = ex_uuid and delta = ex_dust_delta, OF c1 c2] c3
  have second: "\<exists>order. buildOrder ex_risk ex_metadata ex_uuid ex_dust_delta = Inr order \<and>
           o_p order = NumberToString 0"
    by blast
  from first second show ?thesis unfolding d by blast
qed

subsection \<open>Sizes that round to zero (C10)\<close>

text \<open>
  Claim C10. A delta that passes the dust filter (\<open>|deltaSize| > MIN_ABS_DELTA\<close>) and is
  smaller than half of the market's size step \<open>10\<^sup>-\<^sup>d\<close>, \<open>d\<close> the market's \<^verbatim>\<open>sizeDecimals\<close>,
  gets an order whose size string is \<open>0\<close> (for \<open>d = 0\<close>) or \<open>0.0\<dots>0\<close> with \<open>d\<close> zeros: the dust
  filter does not keep the rounded size away from zero. The market must be known and
  \<open>d \<le> 100\<close>, or no order is built at all.
\<close>

theorem buildOrder_size_rounds_to_zero:
  assumes actionable: "\<bar>d_deltaSize delta\<bar> > MIN_ABS_DELTA"
    and small: "\<bar>d_deltaSize delta\<bar> < (1 / 2) / 10 ^ m_sizeDecimals metadata"
    and known: "metadataService (d_coin delta) = Some metadata"
    and digits: "m_sizeDecimals metadata \<le> 100"
  shows "\<exists>order. buildOrder risk metadataService uuid delta = Inr order \<and>
           o_s order = Literal (if m_sizeDecimals metadata = 0 then ''0''
                                else ''0.'' @ replicate (m_sizeDecimals metadata) (CHR ''0''))"
proof -
  have "toFixed \<bar>d_deltaSize delta\<bar> (m_sizeDecimals metadata) =
          Inr (Literal (if m_sizeDecimals metadata = 0 then ''0''
                        else ''0.'' @ replicate (m_sizeDecimals metadata) (CHR ''0'')))"
    using toFixed_below_half_step [of "\<bar>d_deltaSize delta\<bar>" "m_sizeDecimals metadata"] small digits
    by simp
  then show ?thesis
    using known by (simp add: buildOrder_def requireByCoin_def Let_def)
qed

text \<open>
  The example of the claim: \<open>|deltaSize| = 2 \<times> 10\<^sup>-\<^sup>6\<close> on a market with two size decimals
  gives the size string \<open>0.00\<close>.
\<close>

theorem buildOrder_size_rounds_to_zero_witness:
  "\<bar>d_deltaSize ex_dust_delta\<bar> > MIN_ABS_DELTA \<and>
   (\<exists>order. buildOrder ex_risk ex_metadata ex_uuid ex_dust_delta = Inr order \<and>
      o_s order = Literal ''0.00'')"
proof -
  let ?doge = "\<lparr> m_coin = ''DOGE'', m_assetId = 12, m_sizeDecimals = 2, m_markPrice = None \<rparr>"
  have h1: "\<bar>d_deltaSize ex_dust_delta\<bar> > MIN_ABS_DELTA"
    by (simp add: ex_dust_delta_def MIN_ABS_DELTA_def)
  have h2: "\<bar>d_deltaSize ex_dust_delta\<bar> < (1 / 2) / 10 ^ m_sizeDecimals ?doge"
    by (simp add: ex_dust_delta_def)
  have h3: "ex_metadata (d_coin ex_dust_delta) = Some ?doge"
    by (simp add: ex_dust_delta_def ex_metadata_def)
  have h4: "m_sizeDecimals ?doge \<le> 100"
    by simp
  from buildOrder_size_rounds_to_zero [of ex_dust_delta ?doge ex_metadata ex_risk ex_uuid, OF h1 h2 h3 h4]
  have "\<exists>order. buildOrder ex_risk ex_metadata ex_uuid ex_dust_delta = Inr order \<and>
      o_s order = Literal ''0.00''"
    by (simp add: numeral_2_eq_2)
  with h1 show ?thesis by simp
qed

section \<open>Properties of \<^verbatim>\<open>syncWithLeader\<close>\<close>

subsection \<open>The flag along a pass\<close>

lemma failPass_clears: "keepsOrClears ex (failPass e ex')"
  by (simp add: keepsOrClears_def failPass_def)

lemma afterEnsureLoaded_flag: "keepsOrClears ex (afterEnsureLoaded answer ex)"
  by (cases answer) (simp_all add: afterEnsureLoaded_def keepsOrClears_def failPass_def)

lemma afterRefreshMarkPrices_flag: "keepsOrClears ex (afterRefreshMarkPrices uuids answer ex)"
  by (cases answer)
    (auto simp: afterRefreshMarkPrices_def keepsOrClears_def failPass_def Let_def
      split: sum.splits)

lemma afterOrder_flag: "keepsOrClears ex (afterOrder answer ex)"
  by (cases answer) (simp_all add: afterOrder_def keepsOrClears_def failPass_def)

lemma resume_passOpenOrCleared:
  assumes "passOpenOrCleared state"
  shows "passOpenOrCleared (resume env state)"
proof -
  obtain pc ex events where s: "state = (pc, ex, events)" by (cases state)
  show ?thesis
  proof (cases pc)
    case AwaitEnsureLoaded
    with s afterEnsureLoaded_flag [of ex "ensureLoaded env (deps_metadataService ex)"]
    show ?thesis by (auto simp: passOpenOrCleared_def keepsOrClears_def)
  next
    case AwaitRefreshMarkPrices
    with s afterRefreshMarkPrices_flag [of ex "randomUUID env" "refreshMarkPrices env (deps_metadataService ex)"]
    show ?thesis by (auto simp: passOpenOrCleared_def keepsOrClears_def)
  next
    case (AwaitOrder orders)
    with s afterOrder_flag [of ex "exchangeOrder env orders"]
    show ?thesis by (auto simp: passOpenOrCleared_def keepsOrClears_def)
  next
    case (Finished outcome)
    with s assms show ?thesis by (simp add: passOpenOrCleared_def)
  qed
qed

text \<open>
  An invocation settles: with the awaited calls answered, three resumptions reach the
  end of the function on every path.
\<close>

lemma syncWithLeader_settles: "\<exists>outcome. fst (syncWithLeader env ex) = Finished outcome"
proof -
  have three: "\<exists>outcome. fst (resume env (resume env (resume env (pc, ex', events)))) = Finished outcome"
    for pc ex' events
    by (cases pc)
      (auto simp: afterEnsureLoaded_def afterRefreshMarkPrices_def afterOrder_def failPass_def
        Let_def split: sum.splits)
  show ?thesis
    unfolding syncWithLeader_def by (cases "enter ex") (simp add: three)
qed

subsection \<open>The scenario, run\<close>

lemma ex_buildOrders:
  "buildOrders ex_risk ex_metadata (\<lambda>i. ex_uuid) 0
     [\<lparr> d_coin = ''BTC'', d_current = None, d_targetSize = 1, d_deltaSize = 1,
        d_maxNotionalUsd = 50000 \<rparr>,
      \<lparr> d_coin = ''ETH'', d_current = Some \<lparr> p_coin = ''ETH'', p_size = 2, p_entryPrice = 3000 \<rparr>,
        d_targetSize = 0, d_deltaSize = - 2, d_maxNotionalUsd = 0 \<rparr>] = Inr ex_orders"
  by (simp add: ex_order_btc ex_order_eth ex_orders_def)

lemma ex_afterRefreshMarkPrices:
  "afterRefreshMarkPrices (\<lambda>i. ex_uuid) (Inr ex_metadata) (ex_executor\<lparr> syncing := True \<rparr>) =
     (AwaitOrder ex_orders, ex_executor\<lparr> syncing := True \<rparr>,
      [ComputeTargets, ComputeDeltas,
       LogInfo ''Submitting follower sync orders'' 2 [0, 1], ExchangeOrder ex_orders])"
proof -
  have ex: "ex_executor\<lparr> syncing := True, deps_metadataService := ex_metadata \<rparr>
      = ex_executor\<lparr> syncing := True \<rparr>"
    by (simp add: ex_executor_def)
  have deps: "deps_leaderState (ex_executor\<lparr> syncing := True \<rparr>) = ex_leader"
    "deps_followerState (ex_executor\<lparr> syncing := True \<rparr>) = ex_follower"
    "deps_risk (ex_executor\<lparr> syncing := True \<rparr>) = ex_risk"
    "deps_metadataService (ex_executor\<lparr> syncing := True \<rparr>) = ex_metadata"
    by (simp_all add: ex_executor_def)
  have o: "length ex_orders = 2" "map o_a ex_orders = [0, 1]"
    by (simp_all add: ex_orders_def)
  show ?thesis
    by (simp add: afterRefreshMarkPrices_def ex deps ex_deltas MIN_ABS_DELTA_def ex_buildOrders o
        del: buildOrders.simps)
qed

lemma ex_pass_rejected:
  "syncWithLeader ex_env_rejecting ex_executor =
     (Finished (Inl (External ''order rejected'')), ex_executor,
      [EnsureLoaded, RefreshMarkPrices, ComputeTargets, ComputeDeltas,
       LogInfo ''Submitting follower sync orders'' 2 [0, 1], ExchangeOrder ex_orders,
       LogError ''Failed to synchronize follower with leader'' (External ''order rejected'')])"
proof -
  have e: "enter ex_executor = (AwaitEnsureLoaded, ex_executor\<lparr> syncing := True \<rparr>, [EnsureLoaded])"
    by (simp add: enter_def ex_executor_def)
  have m: "deps_metadataService (ex_executor\<lparr> syncing := True \<rparr>) = ex_metadata"
    by (simp add: ex_executor_def)
  have env: "ensureLoaded ex_env_rejecting = (\<lambda>cache. Inr cache)"
    "refreshMarkPrices ex_env_rejecting = (\<lambda>cache. Inr cache)"
    "exchangeOrder ex_env_rejecting = (\<lambda>orders. Inl (External ''order rejected''))"
    "randomUUID ex_env_rejecting = (\<lambda>i. ex_uuid)"
    by (simp_all add: ex_env_rejecting_def ex_env_def)
  have l: "afterEnsureLoaded (Inr ex_metadata) (ex_executor\<lparr> syncing := True \<rparr>)
      = (AwaitRefreshMarkPrices, ex_executor\<lparr> syncing := True \<rparr>, [RefreshMarkPrices])"
    by (simp add: afterEnsureLoaded_def ex_executor_def)
  have f: "afterOrder (Inl (External ''order rejected'')) (ex_executor\<lparr> syncing := True \<rparr>)
      = (Finished (Inl (External ''order rejected'')), ex_executor,
         [LogError ''Failed to synchronize follower with leader'' (External ''order rejected'')])"
    by (simp add: afterOrder_def failPass_def ex_executor_def)
  show ?thesis
    by (simp add: syncWithLeader_def e m env l ex_afterRefreshMarkPrices f)
qed

subsection \<open>One pass at a time (C2)\<close>

lemma filter_update_count:
  "i < length xs \<Longrightarrow>
   length (filter P (xs[i := y])) + (if P (xs ! i) then 1 else 0)
     = length (filter P xs) + (if P y then 1 else 0)"
proof (induction xs arbitrary: i)
  case Nil
  then show ?case by simp
next
  case (Cons x xs)
  then show ?case by (cases i) auto
qed

lemma filter_mem_count: "i < length xs \<Longrightarrow> P (xs ! i) \<Longrightarrow> 0 < length (filter P xs)"
  by (metis filter_empty_conv length_greater_0_conv nth_mem)

lemma resume_preserves:
  assumes inv: "singleFlight sys" and i: "i < length (calls sys)" and at: "inPass (calls sys ! i)"
    and k: "keepsOrClears (executor sys) (pc, ex', events)"
  shows "singleFlight \<lparr>executor = ex', calls = (calls sys)[i := pc], trace = tr\<rparr>"
proof -
  from filter_mem_count [OF i, of inPass] at have "0 < length (filter inPass (calls sys))" by simp
  with inv have s: "syncing (executor sys)" and one: "length (filter inPass (calls sys)) = 1"
    by (auto simp: singleFlight_def split: if_splits)
  from filter_update_count [OF i, of inPass pc] at one
  have "length (filter inPass ((calls sys)[i := pc])) = (if inPass pc then 1 else 0)" by simp
  with k s show ?thesis by (auto simp: singleFlight_def keepsOrClears_def)
qed

lemma step_preserves:
  assumes "step sys sys'" and "singleFlight sys"
  shows "singleFlight sys'"
  using assms
proof (cases rule: step.cases)
  case (Invoke pc ex' events)
  with assms(2) show ?thesis
    by (auto simp: enter_def singleFlight_def split: if_splits)
next
  case (ResumeEnsureLoaded i answer pc ex' events)
  then show ?thesis
    using resume_preserves [OF assms(2), of i pc ex' events] afterEnsureLoaded_flag [of "executor sys" answer]
    by simp
next
  case (ResumeRefreshMarkPrices i uuids answer pc ex' events)
  then show ?thesis
    using resume_preserves [OF assms(2), of i pc ex' events]
      afterRefreshMarkPrices_flag [of "executor sys" uuids answer]
    by simp
next
  case (ResumeOrder i orders result pc ex' events)
  then show ?thesis
    using resume_preserves [OF assms(2), of i pc ex' events] afterOrder_flag [of "executor sys" result]
    by simp
next
  case (World ex')
  with assms(2) show ?thesis by (simp add: singleFlight_def)
qed

lemma reachable_singleFlight: "reachable sys \<Longrightarrow> singleFlight sys"
proof (induction rule: reachable.induct)
  case (Start sys)
  then show ?case by (simp add: initial_def singleFlight_def)
next
  case (Step sys sys')
  then show ?case by (simp add: step_preserves)
qed

lemma syncWithLeader_noop:
  "syncing ex \<Longrightarrow>
   syncWithLeader env ex = (Finished (Inr ()), ex, [LogDebug ''Trade sync already in progress''])"
  by (simp add: syncWithLeader_def enter_def)

lemma awaitsOrder_inPass: "length (filter awaitsOrder pcs) \<le> length (filter inPass pcs)"
proof (induction pcs)
  case Nil
  then show ?case by simp
next
  case (Cons pc pcs)
  then show ?case by (cases pc) simp_all
qed

lemma ex_system_one_call_reachable: "reachable ex_system_one_call"
proof -
  let ?start = "\<lparr> executor = ex_executor, calls = [], trace = [] \<rparr>"
  have "reachable ?start"
    by (rule reachable.Start) (simp add: initial_def ex_executor_def)
  moreover have "step ?start ex_system_one_call"
    using step.Invoke [of ?start AwaitEnsureLoaded "ex_executor\<lparr> syncing := True \<rparr>" "[EnsureLoaded]"]
    by (simp add: enter_def ex_executor_def ex_system_one_call_def)
  ultimately show ?thesis by (rule reachable.Step)
qed

lemma ex_system_reachable: "reachable ex_system"
proof -
  have "step ex_system_one_call ex_system"
    using step.Invoke [of ex_system_one_call "Finished (Inr ())" "ex_executor\<lparr> syncing := True \<rparr>"
        "[LogDebug ''Trade sync already in progress'']"]
    by (simp add: enter_def ex_system_def ex_system_one_call_def)
  with ex_system_one_call_reachable show ?thesis by (rule reachable.Step)
qed

text \<open>
  Claim C2. An invocation that finds the flag set is a no-op: it settles at once without
  an error, leaves the executor as it is, and its only event is the debug line, so it
  neither loads nor refreshes metadata, computes targets or deltas, nor submits orders,
  and nothing is kept of it for later. And in every state the process can reach, with
  invocations overlapping in any way and the awaited calls answering in any way, the
  flag is set exactly when one invocation is inside a pass and never are two, and at
  most one invocation has a batch with the exchange: while one invocation is in progress
  every other one is that no-op, so only the one in progress can submit a batch.
\<close>

theorem syncWithLeader_single_flight:
  "(syncing ex \<longrightarrow>
      enter ex = (Finished (Inr ()), ex, [LogDebug ''Trade sync already in progress'']) \<and>
      syncWithLeader env ex = (Finished (Inr ()), ex, [LogDebug ''Trade sync already in progress''])) \<and>
   (reachable sys \<longrightarrow>
      length (filter inPass (calls sys)) = (if syncing (executor sys) then 1 else 0) \<and>
      length (filter awaitsOrder (calls sys)) \<le> 1)"
proof -
  have "length (filter awaitsOrder (calls sys)) \<le> 1" if "singleFlight sys"
    using that awaitsOrder_inPass [of "calls sys"] by (simp add: singleFlight_def split: if_splits)
  then show ?thesis
    using reachable_singleFlight [of sys] syncWithLeader_noop [of ex env]
    by (auto simp: singleFlight_def enter_def)
qed

text \<open>
  An invocation on an executor whose flag is set, and the process in which a second
  invocation was made while the first waits for \<^verbatim>\<open>ensureLoaded()\<close>: one invocation is
  inside a pass.
\<close>

theorem syncWithLeader_single_flight_witness:
  "syncWithLeader ex_env (ex_executor\<lparr> syncing := True \<rparr>) =
     (Finished (Inr ()), ex_executor\<lparr> syncing := True \<rparr>,
      [LogDebug ''Trade sync already in progress'']) \<and>
   length (filter inPass (calls ex_system)) = 1 \<and>
   length (filter awaitsOrder (calls ex_system)) \<le> 1"
  using syncWithLeader_single_flight [of "ex_executor\<lparr> syncing := True \<rparr>" ex_env ex_system]
    ex_system_reachable
  by (simp add: ex_system_def)

text \<open>
  Claim C7. If a pass submits a batch and the order call fails with an error, the
  invocation ends rejected with that error, and the batch it submitted is the only order
  call among its events: nothing is submitted again, whole or in part.
\<close>

theorem syncWithLeader_submission_failure:
  assumes submitted: "ExchangeOrder orders \<in> set (snd (snd (syncWithLeader env ex)))"
    and failed: "exchangeOrder env orders = Inl e"
  shows "fst (syncWithLeader env ex) = Finished (Inl e) \<and>
         filter isExchangeOrder (snd (snd (syncWithLeader env ex))) = [ExchangeOrder orders]"
  using assms
  by (auto simp: syncWithLeader_def enter_def afterEnsureLoaded_def afterRefreshMarkPrices_def
      afterOrder_def failPass_def Let_def split: sum.splits if_splits)

text \<open>
  The scenario with an exchange that rejects the batch: the invocation ends with the
  rejection, after one order call with the two orders.
\<close>

theorem syncWithLeader_submission_failure_witness:
  "fst (syncWithLeader ex_env_rejecting ex_executor) = Finished (Inl (External ''order rejected'')) \<and>
   filter isExchangeOrder (snd (snd (syncWithLeader ex_env_rejecting ex_executor)))
     = [ExchangeOrder ex_orders]"
proof -
  have h1: "ExchangeOrder ex_orders \<in> set (snd (snd (syncWithLeader ex_env_rejecting ex_executor)))"
    by (simp add: ex_pass_rejected)
  have h2: "exchangeOrder ex_env_rejecting ex_orders = Inl (External ''order rejected'')"
    by (simp add: ex_env_rejecting_def)
  from syncWithLeader_submission_failure [OF h1 h2] show ?thesis .
qed

subsection \<open>The flag after an invocation (C9)\<close>

text \<open>
  Claim C9, as the code has it. The claim is stated for every invocation; the
  \<^verbatim>\<open>finally\<close> that clears the flag belongs to the \<^verbatim>\<open>try\<close>, and the early \<^verbatim>\<open>return\<close> of an
  invocation that finds the flag set is before the \<^verbatim>\<open>try\<close>. Every invocation that finds
  the flag clear settles, with a value or with an error, and the flag is clear when it
  does, whatever the awaited calls answer.
\<close>

theorem syncWithLeader_resets_flag:
  assumes "\<not> syncing ex"
  shows "(\<exists>outcome. fst (syncWithLeader env ex) = Finished outcome) \<and>
         \<not> syncing (fst (snd (syncWithLeader env ex)))"
proof -
  have "passOpenOrCleared (enter ex)"
    using assms by (simp add: enter_def passOpenOrCleared_def)
  then have "passOpenOrCleared (syncWithLeader env ex)"
    unfolding syncWithLeader_def by (intro resume_passOpenOrCleared)
  moreover obtain outcome where "fst (syncWithLeader env ex) = Finished outcome"
    using syncWithLeader_settles by blast
  ultimately show ?thesis
    by (cases "syncWithLeader env ex") (auto simp: passOpenOrCleared_def)
qed

text \<open>The scenario with an exchange that rejects the batch: the error comes out and the flag is clear.\<close>

theorem syncWithLeader_resets_flag_witness:
  "fst (syncWithLeader ex_env_rejecting ex_executor) = Finished (Inl (External ''order rejected'')) \<and>
   syncing (fst (snd (syncWithLeader ex_env_rejecting ex_executor))) = False"
proof -
  have h: "\<not> syncing ex_executor" by (simp add: ex_executor_def)
  from syncWithLeader_resets_flag [OF h, of ex_env_rejecting] show ?thesis
    by (simp add: ex_pass_rejected)
qed

text \<open>
  The claim as stated fails for an invocation made while a pass is in progress: it
  returns with the flag still set, as it found it (clearing it would release a pass
  that is not its own). The executor it is made on is the one of a process in which a
  first invocation waits for \<^verbatim>\<open>ensureLoaded()\<close>.
\<close>

theorem syncWithLeader_resets_flag_counterexample:
  "reachable ex_system_one_call \<and>
   executor ex_system_one_call = ex_executor\<lparr> syncing := True \<rparr> \<and>
   fst (syncWithLeader ex_env (ex_executor\<lparr> syncing := True \<rparr>)) = Finished (Inr ()) \<and>
   syncing (fst (snd (syncWithLeader ex_env (ex_executor\<lparr> syncing := True \<rparr>))))"
  using ex_system_one_call_reachable
  by (simp add: syncWithLeader_def enter_def ex_system_one_call_def)

end
